theory Spec2Isabelle
  imports
    Main
    "HOL-Library.Word"
    "HOL-Library.Char_ord"
    "HOL-Library.List_Lexorder"
    "HOL-Library.Multiset"
begin

unbundle bit_operations_syntax

section \<open>Data model of the sync engine\<close>

text \<open>
  The engine of \<^verbatim>\<open>sync.go\<close> (package \<^verbatim>\<open>fs\<close>) works on remotes, objects and
  directory entries. An object is reached through an interface in the Go code; the
  embedding keeps the values the engine reads from it: remote path, size, modification
  time and the storable flag. A modification time is an instant in nanoseconds, an
  unbounded integer, since a Go \<^verbatim>\<open>time.Time\<close> ranges far beyond 64 bits of nanoseconds.
  A \<^verbatim>\<open>time.Duration\<close> is a signed 64-bit count of nanoseconds.
\<close>

type_synonym Duration = "64 word"

record Object =
  Remote :: string
  Size :: "64 word"
  ModTime :: int
  Storable :: bool

record Dir =
  DirName :: string
  Bytes :: "64 word"
  Count :: "64 word"

datatype BasicInfo = IsObject Object | IsDir Dir

fun Remote_of :: "BasicInfo \<Rightarrow> string" where
  "Remote_of (IsObject x) = Remote x"
| "Remote_of (IsDir d) = DirName d"

record ObjectPair =
  src :: Object
  dst :: "Object option"

datatype DeleteMode =
  DeleteModeOff | DeleteModeBefore | DeleteModeDuring | DeleteModeAfter | DeleteModeOnly

subsection \<open>Errors\<close>

text \<open>
  Modelled from the spec: the error classification of package \<^verbatim>\<open>fs\<close>
  (\<^verbatim>\<open>IsFatalError\<close>, \<^verbatim>\<open>IsNoRetryError\<close>, \<^verbatim>\<open>FatalError\<close>) is not among the
  sources. An error value carries its message and the two tags the engine asks for;
  an error made by \<^verbatim>\<open>errors.New\<close> has neither tag.
\<close>

record error =
  msg :: string
  fatal :: bool
  noRetry :: bool

definition IsFatalError :: "error \<Rightarrow> bool" where
  "IsFatalError e = fatal e"

definition IsNoRetryError :: "error \<Rightarrow> bool" where
  "IsNoRetryError e = noRetry e"

definition errors_New :: "string \<Rightarrow> error" where
  "errors_New m = \<lparr>msg = m, fatal = False, noRetry = False\<rparr>"

definition FatalError :: "error \<Rightarrow> error" where
  "FatalError e = e\<lparr>fatal := True\<rparr>"

definition ErrorNotDeleting :: error where
  "ErrorNotDeleting = errors_New ''not deleting files as there were IO errors''"

subsection \<open>Remotes\<close>

text \<open>
  Modelled from the spec: the \<^verbatim>\<open>Fs\<close> interface, \<^verbatim>\<open>HashSet\<close> and
  \<^verbatim>\<open>CanServerSideMove\<close> are not among the sources. A remote carries its name, its
  root, its hash-set bit field and the two optional server-side features. The common
  hash is the canonical member of the intersection of two hash sets: the lowest set
  bit, and \<^verbatim>\<open>HashNone\<close> (no bit) for the empty set.
\<close>

type_synonym HashType = "64 word"
type_synonym HashSet = "64 word"

record Fs =
  Name :: string
  Root :: string
  Hashes :: HashSet
  hasMove :: bool
  hasCopy :: bool

definition HashNone :: HashType where
  "HashNone = 0"

definition Overlap :: "HashSet \<Rightarrow> HashSet \<Rightarrow> HashSet" where
  "Overlap h t = h AND t"

fun GetOne_loop :: "nat \<Rightarrow> nat \<Rightarrow> HashSet \<Rightarrow> HashType" where
  "GetOne_loop 0 i h = HashNone"
| "GetOne_loop (Suc n) i h = (if bit h i then push_bit i 1 else GetOne_loop n (Suc i) h)"

definition GetOne :: "HashSet \<Rightarrow> HashType" where
  "GetOne h = GetOne_loop 64 0 h"

definition CanServerSideMove :: "Fs \<Rightarrow> bool" where
  "CanServerSideMove f = (hasMove f \<or> hasCopy f)"

subsection \<open>The state of one run\<close>

text \<open>
  \<^verbatim>\<open>syncCopyMove\<close>: the fields the functions below read or write. A channel is the
  list of the values sent on it, oldest first. The abort channel carries no value: it is
  open or closed, and \<open>abortCloses\<close> counts the \<^verbatim>\<open>close(s.abort)\<close> statements
  executed (closing a closed channel panics in Go). The mutexes and wait groups have no
  counterpart: the embedding runs one call at a time.
\<close>

record syncCopyMove =
  fdst :: Fs
  fsrc :: Fs
  deleteMode :: DeleteMode
  DoMove :: bool
  dir :: string
  noTraverse :: bool
  deleteFilesCh :: "Object list"
  trackRenames :: bool
  dstFiles :: "string \<rightharpoonup> Object"
  srcFiles :: "string \<rightharpoonup> Object"
  abort :: bool
  abortCloses :: nat
  toBeChecked :: "ObjectPair list"
  toBeUploaded :: "ObjectPair list"
  err :: "error option"
  noRetryErr :: "error option"
  fatalErr :: "error option"
  commonHash :: HashType
  toBeRenamed :: "ObjectPair list"
  trackRenamesCh :: "Object list"
  backupDir :: "Fs option"
  suffix :: string

section \<open>Error aggregation\<close>

definition aborting :: "syncCopyMove \<Rightarrow> bool" where
  "aborting s = abort s"

definition close_abort :: "syncCopyMove \<Rightarrow> syncCopyMove" where
  "close_abort s = s\<lparr>abort := True, abortCloses := Suc (abortCloses s)\<rparr>"

text \<open>\<^verbatim>\<open>processError\<close>: a nil error changes nothing; the switch tests fatal first.\<close>

definition processError :: "syncCopyMove \<Rightarrow> error option \<Rightarrow> syncCopyMove" where
  "processError s e =
     (case e of
        None \<Rightarrow> s
      | Some er \<Rightarrow>
          if IsFatalError er then
            (let s1 = (if \<not> aborting s then close_abort s else s)
             in s1\<lparr>fatalErr := Some er\<rparr>)
          else if IsNoRetryError er then s\<lparr>noRetryErr := Some er\<rparr>
          else s\<lparr>err := Some er\<rparr>)"

definition currentError :: "syncCopyMove \<Rightarrow> error option" where
  "currentError s =
     (if fatalErr s \<noteq> None then fatalErr s
      else if err s \<noteq> None then err s
      else noRetryErr s)"

text \<open>The errors of a run, reported one after the other.\<close>

fun processErrors :: "syncCopyMove \<Rightarrow> error option list \<Rightarrow> syncCopyMove" where
  "processErrors s [] = s"
| "processErrors s (e # es) = processErrors (processError s e) es"

text \<open>
  The words of the specification: the last error of a class in a sequence of reports,
  and the three classes in the order of the switch.
\<close>

fun lastWhere :: "(error \<Rightarrow> bool) \<Rightarrow> error option list \<Rightarrow> error option" where
  "lastWhere P [] = None"
| "lastWhere P (None # es) = lastWhere P es"
| "lastWhere P (Some e # es) =
     (case lastWhere P es of
        Some e' \<Rightarrow> Some e'
      | None \<Rightarrow> if P e then Some e else None)"

definition fatalClass :: "error \<Rightarrow> bool" where
  "fatalClass e = IsFatalError e"

definition noRetryClass :: "error \<Rightarrow> bool" where
  "noRetryClass e = (\<not> IsFatalError e \<and> IsNoRetryError e)"

definition ordinaryClass :: "error \<Rightarrow> bool" where
  "ordinaryClass e = (\<not> IsFatalError e \<and> \<not> IsNoRetryError e)"

definition spec_aggregate :: "error option list \<Rightarrow> error option" where
  "spec_aggregate es =
     (case lastWhere fatalClass es of
        Some e \<Rightarrow> Some e
      | None \<Rightarrow>
          (case lastWhere ordinaryClass es of
             Some e \<Rightarrow> Some e
           | None \<Rightarrow> lastWhere noRetryClass es))"

definition noErrorsYet :: "syncCopyMove \<Rightarrow> bool" where
  "noErrorsYet s =
     (fatalErr s = None \<and> err s = None \<and> noRetryErr s = None \<and> \<not> abort s \<and> abortCloses s = 0)"

definition example_Fs :: Fs where
  "example_Fs = \<lparr>Name = ''remote'', Root = ''dir'', Hashes = 1, hasMove = True, hasCopy = False\<rparr>"

definition example_state :: syncCopyMove where
  "example_state =
     \<lparr>fdst = example_Fs, fsrc = example_Fs\<lparr>Name := ''local''\<rparr>, deleteMode = DeleteModeAfter,
      DoMove = False, dir = [], noTraverse = False, deleteFilesCh = [], trackRenames = False,
      dstFiles = Map.empty, srcFiles = Map.empty, abort = False, abortCloses = 0,
      toBeChecked = [], toBeUploaded = [],
      err = None, noRetryErr = None, fatalErr = None, commonHash = 1, toBeRenamed = [],
      trackRenamesCh = [], backupDir = None, suffix = []\<rparr>"

text \<open>The abort channel is closed exactly when one close has run.\<close>

definition abortInv :: "syncCopyMove \<Rightarrow> bool" where
  "abortInv s = (abortCloses s = (if abort s then 1 else 0))"


section \<open>The transfer decision\<close>

text \<open>
  The global \<^verbatim>\<open>Config\<close>: the options the functions below read.
\<close>

record ConfigInfo =
  Checkers :: nat
  Transfers :: nat
  NoTraverse :: bool
  TrackRenames :: bool
  BackupDir :: string
  Suffix :: string
  IgnoreExisting :: bool
  IgnoreTimes :: bool
  UpdateOlder :: bool
  ModifyWindow :: Duration
  DeleteExcluded :: bool

text \<open>
  \<^verbatim>\<open>time.Second\<close>, and \<^verbatim>\<open>Time.Sub\<close> of the Go library: the difference of two
  instants, and the largest or smallest duration when the difference does not fit in 64
  bits.
\<close>

definition Second :: Duration where
  "Second = 1000000000"

definition Time_Sub :: "int \<Rightarrow> int \<Rightarrow> Duration" where
  "Time_Sub t u = word_of_int (max (- (2 ^ 63)) (min (2 ^ 63 - 1) (t - u)))"

text \<open>
  \<^verbatim>\<open>NeedTransfer(dst, src)\<close>. The sentinel \<^verbatim>\<open>ModTimeNotSupported\<close> and the function
  \<^verbatim>\<open>Equal\<close> are declared outside the sources: they are the parameters \<open>mtns\<close> and
  \<open>Equal\<close>. Durations compare as signed integers; the negation wraps as Go's does.
\<close>

definition NeedTransfer ::
  "ConfigInfo \<Rightarrow> Duration \<Rightarrow> (Object \<Rightarrow> Object \<Rightarrow> bool) \<Rightarrow> Object option \<Rightarrow> Object \<Rightarrow> bool" where
  "NeedTransfer cfg mtns Equal dstObj srcObj =
     (case dstObj of
        None \<Rightarrow> True
      | Some d \<Rightarrow>
          if IgnoreExisting cfg then False
          else if IgnoreTimes cfg then True
          else if UpdateOlder cfg then
            (let srcModTime = ModTime srcObj;
                 dstModTime = ModTime d;
                 dt = Time_Sub dstModTime srcModTime;
                 modifyWindow = (if ModifyWindow cfg = mtns then Second else ModifyWindow cfg)
             in if sint modifyWindow \<le> sint dt then False
                else if sint dt \<le> sint (- modifyWindow) then True
                else if Size srcObj = Size d then False
                else True)
          else if Equal srcObj d then False
          else True)"

text \<open>
  The window the comparison of \<^verbatim>\<open>--update\<close> works with: the configured one, and
  one second when the configured one is the sentinel.
\<close>

definition effectiveWindow :: "ConfigInfo \<Rightarrow> Duration \<Rightarrow> int" where
  "effectiveWindow cfg mtns = (if ModifyWindow cfg = mtns then sint Second else sint (ModifyWindow cfg))"

text \<open>The value of the sentinel in package \<^verbatim>\<open>fs\<close>: a hundred years.\<close>

definition hundredYears :: Duration where
  "hundredYears = 3153600000000000000"

definition example_Config :: ConfigInfo where
  "example_Config =
     \<lparr>Checkers = 8, Transfers = 4, NoTraverse = False, TrackRenames = False, BackupDir = [],
      Suffix = [], IgnoreExisting = False, IgnoreTimes = False, UpdateOlder = True,
      ModifyWindow = 1, DeleteExcluded = False\<rparr>"

definition example_Object :: Object where
  "example_Object = \<lparr>Remote = ''potato'', Size = 60, ModTime = 981173106999999999, Storable = True\<rparr>"

definition sizeEqual :: "Object \<Rightarrow> Object \<Rightarrow> bool" where
  "sizeEqual a b = (Size a = Size b)"

section \<open>Construction of the run state\<close>

text \<open>
  \<^verbatim>\<open>newSyncCopyMove\<close>. \<^verbatim>\<open>NewFs\<close>, \<^verbatim>\<open>SameConfig\<close> and \<^verbatim>\<open>Overlapping\<close> are
  functions of package \<^verbatim>\<open>fs\<close> outside the sources, taken as parameters. The channels
  start empty and open, the error slots nil. The result is the fatal error of the
  \<^verbatim>\<open>--backup-dir\<close> checks, or the state.
\<close>

definition newSyncCopyMove ::
  "ConfigInfo \<Rightarrow> (string \<Rightarrow> error + Fs) \<Rightarrow> (Fs \<Rightarrow> Fs \<Rightarrow> bool) \<Rightarrow> (Fs \<Rightarrow> Fs \<Rightarrow> bool)
     \<Rightarrow> Fs \<Rightarrow> Fs \<Rightarrow> DeleteMode \<Rightarrow> bool \<Rightarrow> error + syncCopyMove" where
  "newSyncCopyMove cfg NewFs SameConfig Overlapping fdstA fsrcA deleteModeA DoMoveA =
     (let s0 = \<lparr>fdst = fdstA, fsrc = fsrcA, deleteMode = deleteModeA, DoMove = DoMoveA,
                dir = [], noTraverse = NoTraverse cfg, deleteFilesCh = [],
                trackRenames = TrackRenames cfg, dstFiles = Map.empty,
                srcFiles = Map.empty, abort = False,
                abortCloses = 0, toBeChecked = [], toBeUploaded = [], err = None,
                noRetryErr = None, fatalErr = None,
                commonHash = GetOne (Overlap (Hashes fsrcA) (Hashes fdstA)),
                toBeRenamed = [], trackRenamesCh = [], backupDir = None, suffix = []\<rparr>;
          s1 = (if noTraverse s0 \<and> deleteMode s0 \<noteq> DeleteModeOff
                then s0\<lparr>noTraverse := False\<rparr> else s0);
          s2 = (if trackRenames s1 then
                  (let t1 = (if \<not> CanServerSideMove fdstA
                             then s1\<lparr>trackRenames := False\<rparr> else s1);
                       t2 = (if commonHash t1 = HashNone
                             then t1\<lparr>trackRenames := False\<rparr> else t1)
                   in t2)
                else s1);
          s3 = (if trackRenames s2 then
                  (let t1 = (if deleteMode s2 \<noteq> DeleteModeOff
                             then s2\<lparr>deleteMode := DeleteModeAfter\<rparr> else s2);
                       t2 = (if noTraverse t1 then t1\<lparr>noTraverse := False\<rparr> else t1)
                   in t2)
                else s2)
      in if BackupDir cfg \<noteq> [] then
           (case NewFs (BackupDir cfg) of
              Inl e \<Rightarrow>
                Inl (FatalError (errors_New (''Failed to make fs for --backup-dir: '' @ msg e)))
            | Inr b \<Rightarrow>
                if \<not> CanServerSideMove b then
                  Inl (FatalError (errors_New
                    ''can't use --backup-dir on a remote which doesn't support server side move or copy''))
                else if \<not> SameConfig fdstA b then
                  Inl (FatalError (errors_New
                    ''parameter to --backup-dir has to be on the same remote as destination''))
                else if Overlapping fdstA b then
                  Inl (FatalError (errors_New
                    ''destination and parameter to --backup-dir mustn't overlap''))
                else if Overlapping fsrcA b then
                  Inl (FatalError (errors_New
                    ''source and parameter to --backup-dir mustn't overlap''))
                else Inr (s3\<lparr>backupDir := Some b, suffix := Suffix cfg\<rparr>))
         else Inr s3)"

text \<open>Two remotes share a hash type when some bit is set in both hash sets.\<close>

definition shareHash :: "Fs \<Rightarrow> Fs \<Rightarrow> bool" where
  "shareHash a b = (\<exists>i. bit (Hashes a) i \<and> bit (Hashes b) i)"

definition noNewFs :: "string \<Rightarrow> error + Fs" where
  "noNewFs p = Inl (errors_New ''didn't find section in config file'')"

definition sameName :: "Fs \<Rightarrow> Fs \<Rightarrow> bool" where
  "sameName a b = (Name a = Name b)"

section \<open>Deleting after the transfers\<close>

text \<open>
  Modelled from the spec: \<^verbatim>\<open>Stats\<close> is not among the sources; it holds the
  process-wide error counter, and \<^verbatim>\<open>Errored\<close> tells whether it is non-zero.
\<close>

record StatsInfo =
  statErrors :: nat

definition Errored :: "StatsInfo \<Rightarrow> bool" where
  "Errored st = (statErrors st \<noteq> 0)"

text \<open>
  The goroutine of \<^verbatim>\<open>deleteFiles\<close> that ranges over \<^verbatim>\<open>s.dstFiles\<close>, on the keys
  in the order the runtime enumerates them: an object found in the source map is passed
  over when \<open>checkSrcMap\<close> is set, the loop breaks when the run is aborting, and every
  other object is sent.
\<close>

fun toDelete_loop :: "syncCopyMove \<Rightarrow> bool \<Rightarrow> string list \<Rightarrow> Object list" where
  "toDelete_loop s checkSrcMap [] = []"
| "toDelete_loop s checkSrcMap (remote # rest) =
     (case dstFiles s remote of
        None \<Rightarrow> toDelete_loop s checkSrcMap rest
      | Some ob \<Rightarrow>
          if checkSrcMap \<and> srcFiles s remote \<noteq> None then toDelete_loop s checkSrcMap rest
          else if aborting s then []
          else ob # toDelete_loop s checkSrcMap rest)"

text \<open>
  \<^verbatim>\<open>deleteFiles\<close>. The deletion itself is \<^verbatim>\<open>deleteFilesWithBackupDir\<close>, a function
  outside the sources: the parameter \<open>deleteFilesWithBackupDir\<close>, which takes the objects
  sent, the backup remote and the state \<open>w\<close> of the destination and returns its error and
  the new state of the destination. \<open>rangeOrder\<close> is the order of the map iteration.
\<close>

definition deleteFiles ::
  "(Object list \<Rightarrow> Fs option \<Rightarrow> 'w \<Rightarrow> error option \<times> 'w) \<Rightarrow> ((string \<rightharpoonup> Object) \<Rightarrow> string list)
     \<Rightarrow> StatsInfo \<Rightarrow> syncCopyMove \<Rightarrow> bool \<Rightarrow> 'w \<Rightarrow> error option \<times> 'w" where
  "deleteFiles deleteFilesWithBackupDir rangeOrder stats s checkSrcMap w =
     (if Errored stats then (Some ErrorNotDeleting, w)
      else deleteFilesWithBackupDir
             (toDelete_loop s checkSrcMap (rangeOrder (dstFiles s))) (backupDir s) w)"

text \<open>
  The end of \<^verbatim>\<open>runDirAtATime\<close>, after the pipeline has stopped: the deletion pass of
  delete-after. It returns the state, whose \<open>currentError\<close> the function returns, and
  the state of the destination.
\<close>

definition runDirAtATime_deleteAfter ::
  "(Object list \<Rightarrow> Fs option \<Rightarrow> 'w \<Rightarrow> error option \<times> 'w) \<Rightarrow> ((string \<rightharpoonup> Object) \<Rightarrow> string list)
     \<Rightarrow> StatsInfo \<Rightarrow> syncCopyMove \<Rightarrow> 'w \<Rightarrow> syncCopyMove \<times> 'w" where
  "runDirAtATime_deleteAfter deleteFilesWithBackupDir rangeOrder stats s w =
     (if deleteMode s = DeleteModeAfter then
        (if currentError s \<noteq> None then (s, w)
         else (case deleteFiles deleteFilesWithBackupDir rangeOrder stats s False w of
                 (e, w') \<Rightarrow> (processError s e, w')))
      else (s, w))"

text \<open>
  A destination for the examples: the names of the objects it holds. Deleting removes
  the names of the objects passed and never fails.
\<close>

definition example_delete :: "Object list \<Rightarrow> Fs option \<Rightarrow> string list \<Rightarrow> error option \<times> string list" where
  "example_delete obs b w = (None, filter (\<lambda>n. n \<notin> set (map Remote obs)) w)"

definition example_rangeOrder :: "(string \<rightharpoonup> Object) \<Rightarrow> string list" where
  "example_rangeOrder m = filter (\<lambda>n. m n \<noteq> None) [''empty'', ''potato'']"

section \<open>The checkers\<close>







section \<open>The repeatable reader\<close>

text \<open>
  \<^verbatim>\<open>RepeatableReader\<close>: the input reader \<^verbatim>\<open>in\<close>, the reading index \<^verbatim>\<open>i\<close> and the
  cache \<^verbatim>\<open>b\<close>. The index and the offsets are \<^verbatim>\<open>int64\<close>: integers, with the
  wrap-around of the additions on caller-supplied offsets written out. The length of a
  Go slice fits an \<^verbatim>\<open>int\<close>, so the conversions of lengths do not wrap.
\<close>

type_synonym byte = "8 word"

record 'r RepeatableReader =
  rr_in :: 'r
  rr_i :: int
  rr_b :: "byte list"

definition wrap64 :: "int \<Rightarrow> int" where
  "wrap64 x = (x + 2 ^ 63) mod 2 ^ 64 - 2 ^ 63"

definition NewRepeatableReader :: "'r \<Rightarrow> 'r RepeatableReader" where
  "NewRepeatableReader r = \<lparr>rr_in = r, rr_i = 0, rr_b = []\<rparr>"

text \<open>The \<^verbatim>\<open>switch whence\<close> of \<^verbatim>\<open>Seek\<close>: the absolute position asked for.\<close>

definition Seek_abs :: "'r RepeatableReader \<Rightarrow> int \<Rightarrow> int \<Rightarrow> int option" where
  "Seek_abs r offset whence =
     (let cacheLen = int (length (rr_b r))
      in if whence = 0 then Some offset
         else if whence = 1 then Some (wrap64 (rr_i r + offset))
         else if whence = 2 then Some (wrap64 (cacheLen + offset))
         else None)"

text \<open>\<^verbatim>\<open>Seek\<close> returns the position, the error and the reader.\<close>

definition Seek ::
  "'r RepeatableReader \<Rightarrow> int \<Rightarrow> int \<Rightarrow> int \<times> error option \<times> 'r RepeatableReader" where
  "Seek r offset whence =
     (let cacheLen = int (length (rr_b r))
      in case Seek_abs r offset whence of
           None \<Rightarrow> (0, Some (errors_New ''fs.RepeatableReader.Seek: invalid whence''), r)
         | Some abs_pos \<Rightarrow>
             if abs_pos < 0 then
               (0, Some (errors_New ''fs.RepeatableReader.Seek: negative position''), r)
             else if abs_pos > cacheLen then
               (wrap64 (offset - wrap64 (abs_pos - cacheLen)),
                Some (errors_New ''fs.RepeatableReader.Seek: offset is unavailable''), r)
             else (abs_pos, None, r\<lparr>rr_i := abs_pos\<rparr>))"

text \<open>
  \<^verbatim>\<open>Read(b)\<close>, for a buffer of \<open>len\<close> bytes. The input reader is the parameter
  \<open>rd\<close>: from its state and the length of the buffer it gives the bytes it wrote at the
  start of the buffer, its error and its new state. The result is the bytes now at the
  start of the buffer (their number is \<^verbatim>\<open>n\<close>), the error and the reader; \<open>None\<close> is a
  panic of a slice expression: \<^verbatim>\<open>b[:n]\<close> with more bytes than the buffer has, or
  \<^verbatim>\<open>r.b[r.i:]\<close> with the index outside the cache.
\<close>

definition Read ::
  "('r \<Rightarrow> nat \<Rightarrow> byte list \<times> error option \<times> 'r) \<Rightarrow> 'r RepeatableReader \<Rightarrow> nat
     \<Rightarrow> (byte list \<times> error option \<times> 'r RepeatableReader) option" where
  "Read rd r len =
     (let cacheLen = int (length (rr_b r))
      in if rr_i r = cacheLen then
           (case rd (rr_in r) len of
              (data, e, in') \<Rightarrow>
                if len < length data then None
                else Some (data, e,
                       r\<lparr>rr_in := in',
                         rr_b := (if 0 < length data then rr_b r @ data else rr_b r),
                         rr_i := rr_i r + int (length data)\<rparr>))
         else if rr_i r < 0 \<or> cacheLen < rr_i r then None
         else (let data = take len (drop (nat (rr_i r)) (rr_b r))
               in Some (data, None, r\<lparr>rr_i := rr_i r + int (length data)\<rparr>)))"

text \<open>A use of the reader: a sequence of calls of \<^verbatim>\<open>Seek\<close> and \<^verbatim>\<open>Read\<close>.\<close>

datatype rr_call = CallSeek int int | CallRead nat

fun run_calls ::
  "('r \<Rightarrow> nat \<Rightarrow> byte list \<times> error option \<times> 'r) \<Rightarrow> 'r RepeatableReader \<Rightarrow> rr_call list
     \<Rightarrow> 'r RepeatableReader option" where
  "run_calls rd r [] = Some r"
| "run_calls rd r (CallSeek offset whence # cs) = run_calls rd (snd (snd (Seek r offset whence))) cs"
| "run_calls rd r (CallRead len # cs) =
     (case Read rd r len of
        None \<Rightarrow> None
      | Some (data, e, r') \<Rightarrow> run_calls rd r' cs)"

text \<open>
  An input reader that keeps, beside its state, the bytes it has delivered so far: what
  the claim calls the bytes obtained from the underlying reader.
\<close>

definition logged ::
  "('r \<Rightarrow> nat \<Rightarrow> byte list \<times> error option \<times> 'r)
     \<Rightarrow> ('r \<times> byte list) \<Rightarrow> nat \<Rightarrow> byte list \<times> error option \<times> ('r \<times> byte list)" where
  "logged rd st len =
     (case rd (fst st) len of (data, e, x') \<Rightarrow> (data, e, (x', snd st @ data)))"

text \<open>
  An input reader for the examples: a stream of bytes, delivered at most two at a time,
  with the end-of-file error once the stream is empty.
\<close>

definition example_reader :: "byte list \<Rightarrow> nat \<Rightarrow> byte list \<times> error option \<times> byte list" where
  "example_reader xs len =
     (if xs = [] then ([], Some (errors_New ''EOF''), [])
      else (take (min len 2) xs, None, drop (min len 2) xs))"

text \<open>
  The invariant of a reader over a logged input: the cache holds the bytes delivered, in
  the order of delivery, and the index lies within the cache.
\<close>

definition rr_inv :: "('r \<times> byte list) RepeatableReader \<Rightarrow> bool" where
  "rr_inv r = (rr_b r = snd (rr_in r) \<and> 0 \<le> rr_i r \<and> rr_i r \<le> int (length (rr_b r)))"

definition example_rr :: "(byte list) RepeatableReader" where
  "example_rr = \<lparr>rr_in = [6, 7], rr_i = 5, rr_b = [1, 2, 3, 4, 5]\<rparr>"

section \<open>The upload URLs of the B2 backend\<close>

text \<open>
  Package \<^verbatim>\<open>b2\<close>: the fields of its \<^verbatim>\<open>Fs\<close> that the upload path reads or writes,
  the cached bucket id \<^verbatim>\<open>_bucketID\<close> and the pool \<^verbatim>\<open>uploads\<close>. The pool holds
  pointers in Go; here it holds the responses themselves.
\<close>

record GetUploadURLResponse =
  BucketID :: string
  UploadURL :: string
  AuthorizationToken :: string

record b2_Fs =
  bucketID_cache :: string
  uploads :: "GetUploadURLResponse list"

text \<open>
  What the world answers during one call of \<^verbatim>\<open>Update\<close>: the error of the temporary
  file phase, the bucket found by the listing and the listing's error, the answer of
  \<^verbatim>\<open>b2_get_upload_url\<close> (through \<^verbatim>\<open>pacer.Call\<close>), the status code of the response
  to the upload (if there is a response) and the error of \<^verbatim>\<open>CallJSON\<close>, the error of
  \<^verbatim>\<open>authorizeAccount\<close>, and the verdict of \<^verbatim>\<open>shouldRetryNoReauth\<close>.
\<close>

record UpdateEnv =
  prepareErr :: "error option"
  listedBucketID :: string
  listErr :: "error option"
  urlResponse :: "error + GetUploadURLResponse"
  uploadStatus :: "nat option"
  uploadErr :: "error option"
  reauthErr :: "error option"
  retryable :: bool

definition ErrorDirNotFound :: error where
  "ErrorDirNotFound = errors_New ''directory not found''"

definition getBucketID :: "b2_Fs \<Rightarrow> UpdateEnv \<Rightarrow> (string \<times> error option) \<times> b2_Fs" where
  "getBucketID f env =
     (if bucketID_cache f \<noteq> [] then ((bucketID_cache f, None), f)
      else (let bucketID = listedBucketID env;
                e = (if bucketID = [] then Some ErrorDirNotFound else listErr env)
            in ((bucketID, e), f\<lparr>bucketID_cache := bucketID\<rparr>)))"

definition getUploadURL :: "b2_Fs \<Rightarrow> UpdateEnv \<Rightarrow> (error + GetUploadURLResponse) \<times> b2_Fs" where
  "getUploadURL f env =
     (case getBucketID f env of
        ((bucketID, Some e), f1) \<Rightarrow> (Inl e, f1)
      | ((bucketID, None), f1) \<Rightarrow>
          (case uploads f1 of
             [] \<Rightarrow>
               (case urlResponse env of
                  Inl e \<Rightarrow> (Inl (errors_New (''Failed to get upload URL: '' @ msg e)), f1)
                | Inr upload \<Rightarrow> (Inr upload, f1))
           | upload # rest \<Rightarrow> (Inr upload, f1\<lparr>uploads := rest\<rparr>)))"

definition returnUploadURL :: "b2_Fs \<Rightarrow> GetUploadURLResponse \<Rightarrow> b2_Fs" where
  "returnUploadURL f upload = f\<lparr>uploads := uploads f @ [upload]\<rparr>"

definition clearUploadURL :: "b2_Fs \<Rightarrow> b2_Fs" where
  "clearUploadURL f = f\<lparr>uploads := []\<rparr>"

text \<open>\<^verbatim>\<open>shouldRetry\<close>: on status 401 it authorizes again and clears the pool.\<close>

definition shouldRetry :: "b2_Fs \<Rightarrow> UpdateEnv \<Rightarrow> (bool \<times> error option) \<times> b2_Fs" where
  "shouldRetry f env =
     (if uploadStatus env = Some 401 then
        (let e = (if reauthErr env \<noteq> None then reauthErr env else uploadErr env)
         in ((True, e), clearUploadURL f))
      else ((retryable env, uploadErr env), f))"

text \<open>
  Modelled from the spec: the pacer is not among the sources. \<^verbatim>\<open>CallNoRetry\<close> calls
  the function once and does not retry; when the function asks for a retry the error it
  returns is a retry error, made from the function's error.
\<close>

definition RetryError :: "error option \<Rightarrow> error" where
  "RetryError e = (case e of None \<Rightarrow> errors_New ''needs retry'' | Some er \<Rightarrow> er)"

definition CallNoRetry :: "bool \<times> error option \<Rightarrow> error option" where
  "CallNoRetry res = (case res of (retry, e) \<Rightarrow> if retry then Some (RetryError e) else e)"

text \<open>
  \<^verbatim>\<open>Object.Update\<close>, as far as the pool goes: the error returned and the \<^verbatim>\<open>Fs\<close>.
  The deferred \<^verbatim>\<open>returnUploadURL\<close> runs at every return after the URL was obtained.
  The fields of the object set after a successful upload are left out.
\<close>

definition Update :: "b2_Fs \<Rightarrow> UpdateEnv \<Rightarrow> error option \<times> b2_Fs" where
  "Update f env =
     (case prepareErr env of
        Some e \<Rightarrow> (Some e, f)
      | None \<Rightarrow>
          (case getUploadURL f env of
             (Inl e, f1) \<Rightarrow> (Some e, f1)
           | (Inr upload, f1) \<Rightarrow>
               (case shouldRetry f1 env of
                  (res, f2) \<Rightarrow> (CallNoRetry res, returnUploadURL f2 upload))))"

definition example_upload :: GetUploadURLResponse where
  "example_upload =
     \<lparr>BucketID = ''b1'', UploadURL = ''https://pod-000.example/b2api/v1/b2_upload_file/b1/c001'',
      AuthorizationToken = ''token1''\<rparr>"

definition example_b2 :: b2_Fs where
  "example_b2 = \<lparr>bucketID_cache = ''b1'', uploads = [example_upload]\<rparr>"

definition example_env :: UpdateEnv where
  "example_env =
     \<lparr>prepareErr = None, listedBucketID = ''b1'', listErr = None,
      urlResponse = Inr (example_upload\<lparr>AuthorizationToken := ''token2''\<rparr>),
      uploadStatus = Some 500, uploadErr = Some (errors_New ''internal error''),
      reauthErr = None, retryable = True\<rparr>"

section \<open>Directory-at-a-time traversal\<close>

record listDirJob =
  remote :: string
  srcDepth :: int
  dstDepth :: int
  noSrc :: bool
  noDst :: bool

text \<open>
  \<^verbatim>\<open>dstOnly\<close>, \<^verbatim>\<open>srcOnly\<close> and \<^verbatim>\<open>transfer\<close> change the state and append to the
  jobs. \<open>None\<close> is the panic of \<^verbatim>\<open>dstOnly\<close> on a delete mode it does not expect.
  The fields a Go struct literal does not name are zero.
\<close>

definition dstOnly ::
  "syncCopyMove \<Rightarrow> BasicInfo \<Rightarrow> listDirJob \<Rightarrow> listDirJob list \<Rightarrow> (syncCopyMove \<times> listDirJob list) option" where
  "dstOnly s dstE job jobs =
     (if deleteMode s = DeleteModeOff then Some (s, jobs)
      else case dstE of
             IsObject x \<Rightarrow>
               (case deleteMode s of
                  DeleteModeAfter \<Rightarrow> Some (s\<lparr>dstFiles := (dstFiles s)(Remote x \<mapsto> x)\<rparr>, jobs)
                | DeleteModeDuring \<Rightarrow> Some (s\<lparr>deleteFilesCh := deleteFilesCh s @ [x]\<rparr>, jobs)
                | DeleteModeOnly \<Rightarrow> Some (s\<lparr>deleteFilesCh := deleteFilesCh s @ [x]\<rparr>, jobs)
                | _ \<Rightarrow> None)
           | IsDir d \<Rightarrow>
               if 0 < dstDepth job then
                 Some (s, jobs @ [\<lparr>remote = Remote_of dstE, srcDepth = 0,
                                   dstDepth = dstDepth job - 1, noSrc = True, noDst = False\<rparr>])
               else Some (s, jobs))"

definition srcOnly ::
  "syncCopyMove \<Rightarrow> BasicInfo \<Rightarrow> listDirJob \<Rightarrow> listDirJob list \<Rightarrow> syncCopyMove \<times> listDirJob list" where
  "srcOnly s srcE job jobs =
     (if deleteMode s = DeleteModeOnly then (s, jobs)
      else case srcE of
             IsObject x \<Rightarrow>
               if trackRenames s then (s\<lparr>trackRenamesCh := trackRenamesCh s @ [x]\<rparr>, jobs)
               else (s\<lparr>toBeUploaded := toBeUploaded s @ [\<lparr>src = x, dst = None\<rparr>]\<rparr>, jobs)
           | IsDir d \<Rightarrow>
               if 0 < srcDepth job then
                 (s, jobs @ [\<lparr>remote = Remote_of srcE, srcDepth = srcDepth job - 1,
                              dstDepth = 0, noSrc = False, noDst = True\<rparr>])
               else (s, jobs))"

definition transfer ::
  "syncCopyMove \<Rightarrow> BasicInfo \<Rightarrow> BasicInfo \<Rightarrow> listDirJob \<Rightarrow> listDirJob list
     \<Rightarrow> syncCopyMove \<times> listDirJob list" where
  "transfer s dstE srcE job jobs =
     (case srcE of
        IsObject srcX \<Rightarrow>
          if deleteMode s = DeleteModeOnly then (s, jobs)
          else (case dstE of
                  IsObject dstX \<Rightarrow>
                    (s\<lparr>toBeChecked := toBeChecked s @ [\<lparr>src = srcX, dst = Some dstX\<rparr>]\<rparr>, jobs)
                | IsDir dd \<Rightarrow>
                    (processError s (Some (errors_New ''can't overwrite directory with file'')),
                     jobs))
      | IsDir sd \<Rightarrow>
          (case dstE of
             IsDir dstX \<Rightarrow>
               if 0 < srcDepth job \<and> 0 < dstDepth job then
                 (s, jobs @ [\<lparr>remote = Remote_of srcE, srcDepth = srcDepth job - 1,
                              dstDepth = dstDepth job - 1, noSrc = False, noDst = False\<rparr>])
               else (s, jobs)
           | IsObject ob \<Rightarrow>
               (processError s (Some (errors_New ''can't overwrite file with directory'')),
                jobs)))"

text \<open>
  The loop of \<^verbatim>\<open>_runDirAtATime\<close> over the two listings, from the indices \<open>iSrc\<close> and
  \<open>iDst\<close>. Each round ends with both indices advanced; the round that handles one
  side only first takes one back from the index of the other side (\<^verbatim>\<open>iDst--\<close>,
  \<^verbatim>\<open>iSrc--\<close>). The loop returns no jobs when the run is aborting.
\<close>

function merge_loop ::
  "syncCopyMove \<Rightarrow> listDirJob \<Rightarrow> BasicInfo list \<Rightarrow> BasicInfo list \<Rightarrow> int \<Rightarrow> int \<Rightarrow> listDirJob list
     \<Rightarrow> (syncCopyMove \<times> listDirJob list) option" where
  "merge_loop s job srcList dstList iSrc iDst jobs =
     (if aborting s then Some (s, [])
      else if iSrc < 0 \<or> iDst < 0 then None
      else if \<not> iSrc < int (length srcList) \<and> \<not> iDst < int (length dstList) then Some (s, jobs)
      else if \<not> iSrc < int (length srcList) then
        (case dstOnly s (dstList ! nat iDst) job jobs of
           None \<Rightarrow> None
         | Some (s', jobs') \<Rightarrow> merge_loop s' job srcList dstList (iSrc + 1) (iDst + 1) jobs')
      else if \<not> iDst < int (length dstList) then
        (case srcOnly s (srcList ! nat iSrc) job jobs of
           (s', jobs') \<Rightarrow> merge_loop s' job srcList dstList (iSrc + 1) (iDst + 1) jobs')
      else if Remote_of (srcList ! nat iSrc) < Remote_of (dstList ! nat iDst) then
        (case srcOnly s (srcList ! nat iSrc) job jobs of
           (s', jobs') \<Rightarrow> merge_loop s' job srcList dstList (iSrc + 1) (iDst - 1 + 1) jobs')
      else if Remote_of (dstList ! nat iDst) < Remote_of (srcList ! nat iSrc) then
        (case dstOnly s (dstList ! nat iDst) job jobs of
           None \<Rightarrow> None
         | Some (s', jobs') \<Rightarrow> merge_loop s' job srcList dstList (iSrc - 1 + 1) (iDst + 1) jobs')
      else
        (case transfer s (dstList ! nat iDst) (srcList ! nat iSrc) job jobs of
           (s', jobs') \<Rightarrow> merge_loop s' job srcList dstList (iSrc + 1) (iDst + 1) jobs'))"
  by pat_completeness auto
termination
  by (relation "measure (\<lambda>(s, job, srcList, dstList, iSrc, iDst, jobs).
        nat (int (length srcList) - iSrc) + nat (int (length dstList) - iDst))") auto

declare merge_loop.simps [simp del]

text \<open>
  Modelled from the spec: \<^verbatim>\<open>errors.Wrapf\<close> of the errors package gives nil for a nil
  error, and otherwise an error with the message in front.
\<close>

definition errors_Wrapf :: "error option \<Rightarrow> string \<Rightarrow> error option" where
  "errors_Wrapf e m = (case e of None \<Rightarrow> None | Some er \<Rightarrow> Some (er\<lparr>msg := m @ '': '' @ msg er\<rparr>))"

text \<open>
  \<^verbatim>\<open>_runDirAtATime\<close>. The two calls of \<^verbatim>\<open>ListDirSorted\<close> are outside the sources:
  \<open>srcListing\<close> and \<open>dstListing\<close> are what they return, entries and error. A side
  the job suppresses is not listed: its entries and its error are nil.
\<close>

definition runDirAtATime_job ::
  "syncCopyMove \<Rightarrow> listDirJob \<Rightarrow> BasicInfo list \<times> error option \<Rightarrow> BasicInfo list \<times> error option
     \<Rightarrow> (syncCopyMove \<times> listDirJob list) option" where
  "runDirAtATime_job s job srcListing dstListing =
     (let (srcList, srcListErr) = (if \<not> noSrc job then srcListing else ([], None));
          (dstList, dstListErr) = (if \<not> noDst job then dstListing else ([], None))
      in if srcListErr \<noteq> None then
           Some (processError s
                   (errors_Wrapf srcListErr (''error reading source directory '' @ remote job)), [])
         else if dstListErr \<noteq> Some ErrorDirNotFound \<and> dstListErr \<noteq> None then
           Some (processError s
                   (errors_Wrapf srcListErr (''error reading destination directory '' @ remote job)),
                 [])
         else merge_loop s job srcList dstList 0 0 [])"

text \<open>
  The words of the specification. The merge of two listings classifies entries: a
  destination entry alone, a source entry alone, or a source entry matched with a
  destination entry. \<open>merge_classes\<close> is the merge of the specification's pseudocode;
  \<open>classify\<close> hands a class to the function of the source that treats it.
\<close>

datatype merge_class = DstOnly BasicInfo | SrcOnly BasicInfo | Matched BasicInfo BasicInfo

fun merge_classes :: "BasicInfo list \<Rightarrow> BasicInfo list \<Rightarrow> merge_class list" where
  "merge_classes [] [] = []"
| "merge_classes [] (d # ds) = DstOnly d # merge_classes [] ds"
| "merge_classes (a # as) [] = SrcOnly a # merge_classes as []"
| "merge_classes (a # as) (d # ds) =
     (if Remote_of a = Remote_of d then Matched a d # merge_classes as ds
      else if Remote_of a < Remote_of d then SrcOnly a # merge_classes as (d # ds)
      else DstOnly d # merge_classes (a # as) ds)"

fun classify ::
  "syncCopyMove \<Rightarrow> listDirJob \<Rightarrow> merge_class \<Rightarrow> listDirJob list \<Rightarrow> (syncCopyMove \<times> listDirJob list) option" where
  "classify s job (DstOnly d) jobs = dstOnly s d job jobs"
| "classify s job (SrcOnly a) jobs = Some (srcOnly s a job jobs)"
| "classify s job (Matched a d) jobs = Some (transfer s d a job jobs)"

fun run_classes ::
  "syncCopyMove \<Rightarrow> listDirJob \<Rightarrow> merge_class list \<Rightarrow> listDirJob list \<Rightarrow> (syncCopyMove \<times> listDirJob list) option" where
  "run_classes s job [] jobs = Some (s, jobs)"
| "run_classes s job (c # cs) jobs =
     (case classify s job c jobs of
        None \<Rightarrow> None
      | Some (s', jobs') \<Rightarrow> run_classes s' job cs jobs')"

text \<open>The source entries and the destination entries of a list of classes, in order.\<close>

fun class_srcs :: "merge_class list \<Rightarrow> BasicInfo list" where
  "class_srcs [] = []"
| "class_srcs (DstOnly d # cs) = class_srcs cs"
| "class_srcs (SrcOnly a # cs) = a # class_srcs cs"
| "class_srcs (Matched a d # cs) = a # class_srcs cs"

fun class_dsts :: "merge_class list \<Rightarrow> BasicInfo list" where
  "class_dsts [] = []"
| "class_dsts (DstOnly d # cs) = d # class_dsts cs"
| "class_dsts (SrcOnly a # cs) = class_dsts cs"
| "class_dsts (Matched a d # cs) = d # class_dsts cs"

text \<open>A class is right for two listings when it says what the names say.\<close>

fun class_right :: "BasicInfo list \<Rightarrow> BasicInfo list \<Rightarrow> merge_class \<Rightarrow> bool" where
  "class_right srcList dstList (Matched a d) = (Remote_of a = Remote_of d)"
| "class_right srcList dstList (SrcOnly a) = (Remote_of a \<notin> set (map Remote_of dstList))"
| "class_right srcList dstList (DstOnly d) = (Remote_of d \<notin> set (map Remote_of srcList))"

text \<open>A listing sorted by name with no name twice.\<close>

definition sorted_names :: "BasicInfo list \<Rightarrow> bool" where
  "sorted_names es = sorted_wrt (<) (map Remote_of es)"

text \<open>The listings the merge works on.\<close>

definition listed :: "bool \<Rightarrow> BasicInfo list \<times> error option \<Rightarrow> BasicInfo list" where
  "listed suppressed listing = (if suppressed then [] else fst listing)"

definition listedErr :: "bool \<Rightarrow> BasicInfo list \<times> error option \<Rightarrow> error option" where
  "listedErr suppressed listing = (if suppressed then None else snd listing)"

definition example_Dir :: Dir where
  "example_Dir = \<lparr>DirName = ''sub'', Bytes = - 1, Count = - 1\<rparr>"

definition example_job :: listDirJob where
  "example_job = \<lparr>remote = [], srcDepth = 3, dstDepth = 3, noSrc = False, noDst = False\<rparr>"

definition example_src_listing :: "BasicInfo list \<times> error option" where
  "example_src_listing =
     ([IsObject (example_Object\<lparr>Remote := ''empty'', Size := 0\<rparr>),
       IsObject (example_Object\<lparr>Size := 21\<rparr>), IsDir example_Dir], None)"

definition example_dst_listing :: "BasicInfo list \<times> error option" where
  "example_dst_listing =
     ([IsObject example_Object, IsDir example_Dir,
       IsObject (example_Object\<lparr>Remote := ''zzz''\<rparr>)], None)"

section \<open>The listings of bisync\<close>

text \<open>
  Package \<^verbatim>\<open>bisync\<close>, file \<^verbatim>\<open>listing.go\<close>. A \<^verbatim>\<open>fileInfo\<close> has the fields
  \<^verbatim>\<open>size\<close>, \<^verbatim>\<open>time\<close>, \<^verbatim>\<open>hash\<close>, \<^verbatim>\<open>id\<close> and \<^verbatim>\<open>flags\<close>; a \<^verbatim>\<open>fileList\<close>
  the fields \<^verbatim>\<open>list\<close>, \<^verbatim>\<open>info\<close> and \<^verbatim>\<open>hash\<close>. A time is an instant in
  nanoseconds. The hash type of a list is given by its name, \<open>None\<close> for
  \<^verbatim>\<open>hash.None\<close>. The map of a list holds pointers in Go; here it holds the records.
\<close>

record fileInfo =
  fi_size :: "64 word"
  fi_time :: int
  fi_hash :: string
  fi_id :: string
  fi_flags :: string

record fileList =
  ls_list :: "string list"
  ls_info :: "string \<rightharpoonup> fileInfo"
  ls_hash :: "string option"

text \<open>
  The functions of the Go library that the listing code calls, as parameters:
  \<^verbatim>\<open>t.In(TZ).Format(timeFormat)\<close>, \<^verbatim>\<open>time.ParseInLocation(timeFormat, s, TZ)\<close>,
  \<^verbatim>\<open>strconv.Quote\<close> (the verb \<^verbatim>\<open>%q\<close>), \<^verbatim>\<open>strconv.Unquote\<close> and
  \<^verbatim>\<open>hash.Type.Set\<close> (\<open>None\<close> is its error).
\<close>

record listingEnv =
  formatTime :: "int \<Rightarrow> string"
  parseTime :: "string \<Rightarrow> int option"
  Quote :: "string \<Rightarrow> string"
  Unquote :: "string \<Rightarrow> string option"
  hash_Set :: "string \<Rightarrow> string option option"


definition newline :: char where
  "newline = CHR 0x0A"

definition dquote :: char where
  "dquote = CHR 0x22"







text \<open>
  \<^verbatim>\<open>get\<close>: the entry of a name, and failing that the entry of the name unquoted (the
  empty name when unquoting fails). \<open>get_key\<close> is the name under which \<^verbatim>\<open>get\<close>
  finds the entry, which \<^verbatim>\<open>put\<close> then changes through the pointer.
\<close>

definition unquoted :: "listingEnv \<Rightarrow> string \<Rightarrow> string" where
  "unquoted env file =
     (case Unquote env (dquote # file @ [dquote]) of None \<Rightarrow> [] | Some f \<Rightarrow> f)"

definition get_key :: "listingEnv \<Rightarrow> fileList \<Rightarrow> string \<Rightarrow> string option" where
  "get_key env ls file =
     (if ls_info ls file \<noteq> None then Some file
      else if ls_info ls (unquoted env file) \<noteq> None then Some (unquoted env file)
      else None)"

definition get :: "listingEnv \<Rightarrow> fileList \<Rightarrow> string \<Rightarrow> fileInfo option" where
  "get env ls file =
     (case ls_info ls file of
        Some fi \<Rightarrow> Some fi
      | None \<Rightarrow> ls_info ls (unquoted env file))"

definition has :: "listingEnv \<Rightarrow> fileList \<Rightarrow> string \<Rightarrow> bool" where
  "has env ls file =
     (if ls_info ls file \<noteq> None then True else ls_info ls (unquoted env file) \<noteq> None)"

definition newFileList :: fileList where
  "newFileList = \<lparr>ls_list = [], ls_info = Map.empty, ls_hash = None\<rparr>"

definition put ::
  "listingEnv \<Rightarrow> fileList \<Rightarrow> string \<Rightarrow> 64 word \<Rightarrow> int \<Rightarrow> string \<Rightarrow> string \<Rightarrow> string \<Rightarrow> fileList" where
  "put env ls file sz modtime hashVal idVal flagsVal =
     (case get_key env ls file of
        Some k \<Rightarrow>
          (case ls_info ls k of
             None \<Rightarrow> ls
           | Some fi \<Rightarrow>
               (let modtime' =
                      (if fi_time fi \<noteq> modtime \<and> modtime < fi_time fi
                          \<and> sint (Time_Sub (fi_time fi) modtime) < sint Second
                       then fi_time fi else modtime)
                in ls\<lparr>ls_info := (ls_info ls)(k \<mapsto>
                       \<lparr>fi_size = sz, fi_time = modtime', fi_hash = hashVal, fi_id = idVal,
                        fi_flags = flagsVal\<rparr>)\<rparr>))
      | None \<Rightarrow>
          ls\<lparr>ls_info := (ls_info ls)(file \<mapsto>
                 \<lparr>fi_size = sz, fi_time = modtime, fi_hash = hashVal, fi_id = idVal,
                  fi_flags = flagsVal\<rparr>),
             ls_list := ls_list ls @ [file]\<rparr>)"

definition afterTime :: "listingEnv \<Rightarrow> fileList \<Rightarrow> string \<Rightarrow> int \<Rightarrow> bool" where
  "afterTime env ls file t =
     (case get env ls file of None \<Rightarrow> False | Some fi \<Rightarrow> t < fi_time fi)"





text \<open>
  \<^verbatim>\<open>lineRegex\<close>. Character classes of the regular expression: \<^verbatim>\<open>\\s\<close> is tab,
  newline, form feed, carriage return and space; \<^verbatim>\<open>\\d\<close> is a decimal digit; \<^verbatim>\<open>.\<close>
  is any character but newline.
\<close>

definition is_space :: "char \<Rightarrow> bool" where
  "is_space c = (c \<in> set [CHR 0x09, CHR 0x0A, CHR 0x0C, CHR 0x0D, CHR '' ''])"

definition is_digit :: "char \<Rightarrow> bool" where
  "is_digit c = (48 \<le> (of_char c :: nat) \<and> (of_char c :: nat) \<le> 57)"

text \<open>
  The time of a line: \<^verbatim>\<open>\\d{4}-\\d\\d-\\d\\dT\\d\\d:\\d\\d:\\d\\d\\.\\d{9}[+-]\\d{4}\<close>, 34
  characters. In the shape, \<open>D\<close> stands for a digit and \<open>S\<close> for a sign.
\<close>

definition time_shape :: string where
  "time_shape = ''DDDD-DD-DDTDD:DD:DD.DDDDDDDDDSDDDD''"

definition shape_char :: "char \<Rightarrow> char \<Rightarrow> bool" where
  "shape_char p c =
     (if p = CHR ''D'' then is_digit c
      else if p = CHR ''S'' then c = CHR ''+'' \<or> c = CHR ''-''
      else c = p)"

definition time_match :: "string \<Rightarrow> bool" where
  "time_match str = (length str = length time_shape \<and> list_all2 shape_char time_shape str)"

text \<open>The name of a line: \<^verbatim>\<open>".+"\<close> up to the end of the line.\<close>

definition name_match :: "string \<Rightarrow> bool" where
  "name_match str =
     (3 \<le> length str \<and> hd str = dquote \<and> last str = dquote
      \<and> newline \<notin> set (butlast (tl str)))"

text \<open>
  The match of a line against \<^verbatim>\<open>lineRegex\<close>, piece by piece from the left. Each of
  the first five fields ends at the first space after it, so there is one way to match.
  \<open>match_size\<close> is \<^verbatim>\<open> +(-?\\d+) \<close>, \<open>match_field\<close> is \<^verbatim>\<open>(\\S+) \<close> and
  \<open>match_time\<close> is the time followed by a space: each gives the submatch and the rest
  of the line.
\<close>

definition match_size :: "string \<Rightarrow> (string \<times> string) option" where
  "match_size r0 =
     (let r1 = dropWhile (\<lambda>x. x = CHR '' '') r0;
          neg = (r1 \<noteq> [] \<and> hd r1 = CHR ''-'');
          r2 = (if neg then tl r1 else r1);
          digits = takeWhile is_digit r2;
          r3 = dropWhile is_digit r2
      in if r0 = [] \<or> hd r0 \<noteq> CHR '' '' \<or> digits = [] \<or> r3 = [] \<or> hd r3 \<noteq> CHR '' '' then None
         else Some (if neg then CHR ''-'' # digits else digits, tl r3))"

definition match_field :: "string \<Rightarrow> (string \<times> string) option" where
  "match_field r =
     (let field = takeWhile (\<lambda>x. \<not> is_space x) r;
          r' = dropWhile (\<lambda>x. \<not> is_space x) r
      in if field = [] \<or> r' = [] \<or> hd r' \<noteq> CHR '' '' then None
         else Some (field, tl r'))"

definition match_time :: "string \<Rightarrow> (string \<times> string) option" where
  "match_time r =
     (let timeStr = take 34 r;
          r' = drop 34 r
      in if \<not> time_match timeStr \<or> r' = [] \<or> hd r' \<noteq> CHR '' '' then None
         else Some (timeStr, tl r'))"

definition lineRegex ::
  "string \<Rightarrow> (string \<times> string \<times> string \<times> string \<times> string \<times> string) option" where
  "lineRegex line =
     (case line of
        [] \<Rightarrow> None
      | c # r0 \<Rightarrow>
          if is_space c then None
          else
            (case match_size r0 of
               None \<Rightarrow> None
             | Some (sizeStr, r4) \<Rightarrow>
                 (case match_field r4 of
                    None \<Rightarrow> None
                  | Some (hashStr, r6) \<Rightarrow>
                      (case match_field r6 of
                         None \<Rightarrow> None
                       | Some (idStr, r8) \<Rightarrow>
                           (case match_time r8 of
                              None \<Rightarrow> None
                            | Some (timeStr, nameStr) \<Rightarrow>
                                if name_match nameStr
                                then Some ([c], sizeStr, hashStr, idStr, timeStr, nameStr)
                                else None)))))"

text \<open>
  \<^verbatim>\<open>strconv.ParseInt(s, 10, 64)\<close> on the strings that the regular expression lets
  through, an optional minus sign and digits: the number, or the range error.
\<close>

definition digits_val :: "string \<Rightarrow> nat" where
  "digits_val ds = foldl (\<lambda>acc c. 10 * acc + (of_char c - 48)) 0 ds"

definition ParseInt :: "string \<Rightarrow> 64 word option" where
  "ParseInt str =
     (let neg = (str \<noteq> [] \<and> hd str = CHR ''-'');
          ds = (if neg then tl str else str);
          v = (if neg then - int (digits_val ds) else int (digits_val ds))
      in if ds = [] \<or> \<not> list_all is_digit ds then None
         else if - (2 ^ 63) \<le> v \<and> v < 2 ^ 63 then Some (word_of_int v)
         else None)"

text \<open>\<^verbatim>\<open>parseHash\<close>: name, value, or \<open>None\<close> for its error.\<close>

definition parseHash :: "string \<Rightarrow> (string \<times> string) option" where
  "parseHash str =
     (if str = ''-'' then Some ([], [])
      else (let name = takeWhile (\<lambda>x. x \<noteq> CHR '':'') str;
                rest = dropWhile (\<lambda>x. x \<noteq> CHR '':'') str
            in if rest \<noteq> [] \<and> name \<noteq> [] \<and> tl rest \<noteq> [] then Some (name, tl rest)
               else None))"

text \<open>
  \<^verbatim>\<open>reader.ReadString('\\n')\<close> until \<^verbatim>\<open>io.EOF\<close>: the lines of the text that end
  with a newline, without it. What follows the last newline comes with \<^verbatim>\<open>io.EOF\<close>
  and is dropped by the \<^verbatim>\<open>break\<close>.
\<close>

fun read_lines_from :: "string \<Rightarrow> string \<Rightarrow> string list" where
  "read_lines_from cur [] = []"
| "read_lines_from cur (c # cs) =
     (if c = newline then rev cur # read_lines_from [] cs
      else read_lines_from (c # cur) cs)"

definition read_lines :: "string \<Rightarrow> string list" where
  "read_lines text = read_lines_from [] text"

text \<open>
  The fields of a line that \<^verbatim>\<open>loadListing\<close> converts: name, size, time, and the
  results of \<^verbatim>\<open>parseHash\<close>, with the id and the flags. \<open>None\<close> when the regular
  expression does not match.
\<close>

record parsedLine =
  p_flags :: string
  p_size :: "64 word option"
  p_hash :: "(string \<times> string) option"
  p_id :: string
  p_time :: "int option"
  p_name :: "string option"

definition parse_line :: "listingEnv \<Rightarrow> string \<Rightarrow> parsedLine option" where
  "parse_line env line =
     (case lineRegex line of
        None \<Rightarrow> None
      | Some (flagsStr, sizeStr, hashStr, idStr, timeStr, nameStr) \<Rightarrow>
          Some \<lparr>p_flags = flagsStr, p_size = ParseInt sizeStr, p_hash = parseHash hashStr,
                p_id = idStr, p_time = parseTime env timeStr, p_name = Unquote env nameStr\<rparr>)"

text \<open>
  The body of the loop of \<^verbatim>\<open>loadListing\<close> for one line, on the list and
  \<^verbatim>\<open>lastHashName\<close>. Every \<^verbatim>\<open>continue\<close> leaves both as they are, but for the hash
  name and type set before the line is found incorrect.
\<close>

definition load_line :: "listingEnv \<Rightarrow> string \<Rightarrow> fileList \<times> string \<Rightarrow> fileList \<times> string" where
  "load_line env line st =
     (case st of (ls, lastHashName) \<Rightarrow>
        if line = [] \<or> hd line = CHR ''#'' then st
        else
          (case parse_line env line of
             None \<Rightarrow> st
           | Some p \<Rightarrow>
               (let hashName = (case p_hash p of None \<Rightarrow> [] | Some (n, v) \<Rightarrow> n);
                    hashVal = (case p_hash p of None \<Rightarrow> [] | Some (n, v) \<Rightarrow> v);
                    setNow = (p_hash p \<noteq> None \<and> hashName \<noteq> [] \<and> lastHashName = []);
                    inconsistent = (p_hash p \<noteq> None \<and> hashName \<noteq> [] \<and> lastHashName \<noteq> []
                                    \<and> hashName \<noteq> lastHashName);
                    lastHashName' = (if setNow then hashName else lastHashName);
                    ls1 = (if setNow then
                             (case hash_Set env hashName of
                                None \<Rightarrow> ls
                              | Some h \<Rightarrow> ls\<lparr>ls_hash := h\<rparr>)
                           else ls);
                    hashErr = (p_hash p = None \<or> (setNow \<and> hash_Set env hashName = None))
                in if inconsistent then (ls1, lastHashName')
                   else if (p_flags p \<noteq> ''-'' \<and> p_flags p \<noteq> ''d'') \<or> p_id p \<noteq> ''-''
                           \<or> p_size p = None \<or> p_time p = None \<or> hashErr \<or> p_name p = None
                   then (ls1, lastHashName')
                   else
                     (case (p_name p, p_size p, p_time p) of
                        (Some nameVal, Some sizeVal, Some timeVal) \<Rightarrow>
                          if has env ls1 nameVal \<and> afterTime env ls1 nameVal timeVal
                          then (ls1, lastHashName')
                          else (put env ls1 nameVal sizeVal timeVal hashVal (p_id p) (p_flags p),
                                lastHashName')
                      | _ \<Rightarrow> (ls1, lastHashName')))))"

text \<open>
  \<^verbatim>\<open>loadListing\<close>: the error of \<^verbatim>\<open>os.Open\<close>, or the list read from the text of the
  file.
\<close>

definition loadListing :: "listingEnv \<Rightarrow> error + string \<Rightarrow> error + fileList" where
  "loadListing env file =
     (case file of
        Inl e \<Rightarrow> Inl e
      | Inr text \<Rightarrow> Inr (fst (foldl (\<lambda>st line. load_line env line st) (newFileList, []) (read_lines text))))"
















section \<open>Properties of the error aggregation\<close>

lemma fatalErr_processError:
  "fatalErr (processError s e) =
     (case e of None \<Rightarrow> fatalErr s | Some er \<Rightarrow> if fatalClass er then Some er else fatalErr s)"
  by (simp add: processError_def fatalClass_def close_abort_def Let_def split: option.splits)

lemma err_processError:
  "err (processError s e) =
     (case e of None \<Rightarrow> err s | Some er \<Rightarrow> if ordinaryClass er then Some er else err s)"
  by (simp add: processError_def ordinaryClass_def close_abort_def Let_def split: option.splits)

lemma noRetryErr_processError:
  "noRetryErr (processError s e) =
     (case e of None \<Rightarrow> noRetryErr s
      | Some er \<Rightarrow> if noRetryClass er then Some er else noRetryErr s)"
  by (simp add: processError_def noRetryClass_def close_abort_def Let_def split: option.splits)

lemma fatalErr_processErrors:
  "fatalErr (processErrors s es) =
     (case lastWhere fatalClass es of Some e \<Rightarrow> Some e | None \<Rightarrow> fatalErr s)"
proof (induction es arbitrary: s)
  case Nil
  show ?case by simp
next
  case (Cons e es)
  show ?case
    by (cases e) (simp_all add: Cons.IH fatalErr_processError split: option.splits)
qed

lemma err_processErrors:
  "err (processErrors s es) =
     (case lastWhere ordinaryClass es of Some e \<Rightarrow> Some e | None \<Rightarrow> err s)"
proof (induction es arbitrary: s)
  case Nil
  show ?case by simp
next
  case (Cons e es)
  show ?case
    by (cases e) (simp_all add: Cons.IH err_processError split: option.splits)
qed

lemma noRetryErr_processErrors:
  "noRetryErr (processErrors s es) =
     (case lastWhere noRetryClass es of Some e \<Rightarrow> Some e | None \<Rightarrow> noRetryErr s)"
proof (induction es arbitrary: s)
  case Nil
  show ?case by simp
next
  case (Cons e es)
  show ?case
    by (cases e) (simp_all add: Cons.IH noRetryErr_processError split: option.splits)
qed

lemma abortInv_processError: "abortInv s \<Longrightarrow> abortInv (processError s e)"
  by (auto simp: abortInv_def processError_def close_abort_def aborting_def Let_def
      split: option.splits)

lemma abort_processError:
  "abort (processError s e) = (abort s \<or> (case e of None \<Rightarrow> False | Some er \<Rightarrow> fatalClass er))"
  by (auto simp: processError_def close_abort_def aborting_def fatalClass_def Let_def
      split: option.splits)

lemma abortInv_processErrors: "abortInv s \<Longrightarrow> abortInv (processErrors s es)"
  by (induction es arbitrary: s) (simp_all add: abortInv_processError)

lemma lastWhere_None_iff:
  "lastWhere P es = None \<longleftrightarrow> (\<forall>e. Some e \<in> set es \<longrightarrow> \<not> P e)"
proof (induction es)
  case Nil
  show ?case by simp
next
  case (Cons x xs)
  show ?case
  proof (cases x)
    case None
    then show ?thesis using Cons.IH by simp
  next
    case (Some a)
    show ?thesis
    proof (cases "lastWhere P xs")
      case None
      then show ?thesis using Cons.IH Some by auto
    next
      case (Some b)
      then have "\<exists>e. Some e \<in> set xs \<and> P e" using Cons.IH by auto
      then show ?thesis using Some \<open>x = Some a\<close> by auto
    qed
  qed
qed

lemma abort_processErrors:
  "abort (processErrors s es) = (abort s \<or> lastWhere fatalClass es \<noteq> None)"
proof (induction es arbitrary: s)
  case Nil
  show ?case by simp
next
  case (Cons e es)
  show ?case
    by (cases e) (auto simp: Cons.IH abort_processError split: option.splits)
qed

text \<open>
  C3. After any sequence of reports to \<open>processError\<close>, starting from a state with no
  error recorded and the abort channel open, \<open>currentError\<close> returns the last fatal
  error if one was reported, otherwise the last ordinary error if there is one,
  otherwise the last no-retry error; the abort channel is closed exactly when a fatal
  error was reported, and \<^verbatim>\<open>close\<close> ran once in that case and never otherwise.
\<close>

theorem currentError_precedence:
  assumes "noErrorsYet s"
  shows "currentError (processErrors s es) = spec_aggregate es
       \<and> abort (processErrors s es) = (lastWhere fatalClass es \<noteq> None)
       \<and> abortCloses (processErrors s es) = (if lastWhere fatalClass es \<noteq> None then 1 else 0)"
proof -
  from assms have inv: "abortInv s"
    by (simp add: noErrorsYet_def abortInv_def)
  from assms have slots: "fatalErr s = None" "err s = None" "noRetryErr s = None" "\<not> abort s"
    by (simp_all add: noErrorsYet_def)
  have cur: "currentError (processErrors s es) = spec_aggregate es"
    by (simp add: currentError_def spec_aggregate_def fatalErr_processErrors
        err_processErrors noRetryErr_processErrors slots split: option.splits)
  have ab: "abort (processErrors s es) = (lastWhere fatalClass es \<noteq> None)"
    by (simp add: abort_processErrors slots)
  have "abortInv (processErrors s es)"
    using inv by (rule abortInv_processErrors)
  then have cl: "abortCloses (processErrors s es) = (if lastWhere fatalClass es \<noteq> None then 1 else 0)"
    by (simp add: abortInv_def ab)
  from cur ab cl show ?thesis by simp
qed

theorem currentError_precedence_witness:
  "noErrorsYet example_state
   \<and> currentError (processErrors example_state
        [Some (errors_New ''a''), Some (FatalError (errors_New ''b'')), None,
         Some (errors_New ''c'')])
       = spec_aggregate
        [Some (errors_New ''a''), Some (FatalError (errors_New ''b'')), None,
         Some (errors_New ''c'')]
   \<and> spec_aggregate
        [Some (errors_New ''a''), Some (FatalError (errors_New ''b'')), None,
         Some (errors_New ''c'')] = Some (FatalError (errors_New ''b''))
   \<and> abortCloses (processErrors example_state
        [Some (errors_New ''a''), Some (FatalError (errors_New ''b'')), None,
         Some (errors_New ''c'')]) = 1"
  using currentError_precedence [of example_state
      "[Some (errors_New ''a''), Some (FatalError (errors_New ''b'')), None,
        Some (errors_New ''c'')]"]
  by (simp add: noErrorsYet_def example_state_def spec_aggregate_def fatalClass_def
      ordinaryClass_def noRetryClass_def IsFatalError_def IsNoRetryError_def errors_New_def
      FatalError_def)

section \<open>Properties of the transfer decision\<close>

lemma sint_Time_Sub:
  "sint (Time_Sub t u) = max (- (2 ^ 63)) (min (2 ^ 63 - 1) (t - u))"
  unfolding Time_Sub_def
  by (simp add: sint_sbintrunc' signed_take_bit_int_eq_self)

lemma sint_range64: "- (2 ^ 63) \<le> sint (w :: 64 word) \<and> sint w < 2 ^ 63"
  using sint_range_size [of w] by (simp add: word_size)

lemma sint_neg_window:
  assumes "0 < sint (w :: 64 word)"
  shows "sint (- w) = - sint w"
proof -
  have "sint w < 2 ^ 63" using sint_range64 [of w] by simp
  then have "signed_take_bit 63 (- sint w) = - sint w"
    using assms by (intro signed_take_bit_int_eq_self) simp_all
  then show ?thesis by (simp add: sint_word_minus)
qed

lemma update_older_decision:
  assumes upd: "UpdateOlder cfg" "\<not> IgnoreExisting cfg" "\<not> IgnoreTimes cfg"
    and pos: "0 < effectiveWindow cfg mtns"
  shows "NeedTransfer cfg mtns Equal (Some d) s =
     (if effectiveWindow cfg mtns \<le> ModTime d - ModTime s then False
      else if ModTime d - ModTime s \<le> - effectiveWindow cfg mtns then True
      else Size s \<noteq> Size d)"
proof -
  define w :: Duration where "w = (if ModifyWindow cfg = mtns then Second else ModifyWindow cfg)"
  have w: "sint w = effectiveWindow cfg mtns"
    by (simp add: w_def effectiveWindow_def)
  have wpos: "0 < sint w" using pos w by simp
  have wlt: "sint w < 2 ^ 63" using sint_range64 [of w] by simp
  have neg: "sint (- w) = - sint w" using wpos by (rule sint_neg_window)
  have ge: "sint w \<le> sint (Time_Sub (ModTime d) (ModTime s)) \<longleftrightarrow> sint w \<le> ModTime d - ModTime s"
    using wpos wlt by (auto simp: sint_Time_Sub)
  have le: "sint (Time_Sub (ModTime d) (ModTime s)) \<le> - sint w \<longleftrightarrow> ModTime d - ModTime s \<le> - sint w"
    using wpos wlt by (auto simp: sint_Time_Sub)
  have "NeedTransfer cfg mtns Equal (Some d) s =
     (if sint w \<le> sint (Time_Sub (ModTime d) (ModTime s)) then False
      else if sint (Time_Sub (ModTime d) (ModTime s)) \<le> sint (- w) then True
      else Size s \<noteq> Size d)"
    using upd by (simp add: NeedTransfer_def Let_def w_def)
  then show ?thesis
    using ge le unfolding neg w by simp
qed

text \<open>
  C1 (amended). With \<^verbatim>\<open>--update\<close> on, \<^verbatim>\<open>--ignore-existing\<close> and
  \<^verbatim>\<open>--ignore-times\<close> off and the destination object present, let W be the window
  the comparison uses: the configured modify window, or one second when the configured
  one is the sentinel. When W is positive, \<open>NeedTransfer\<close> returns false if the
  destination's time minus the source's is at least W, true if it is at most -W, and
  strictly between the two it returns true exactly when the sizes differ.
\<close>

theorem NeedTransfer_update_older:
  assumes "UpdateOlder cfg" and "\<not> IgnoreExisting cfg" and "\<not> IgnoreTimes cfg"
    and "0 < effectiveWindow cfg mtns"
  shows "(effectiveWindow cfg mtns \<le> ModTime d - ModTime s
            \<longrightarrow> \<not> NeedTransfer cfg mtns Equal (Some d) s)
       \<and> (ModTime d - ModTime s \<le> - effectiveWindow cfg mtns
            \<longrightarrow> NeedTransfer cfg mtns Equal (Some d) s)
       \<and> (- effectiveWindow cfg mtns < ModTime d - ModTime s
            \<and> ModTime d - ModTime s < effectiveWindow cfg mtns
            \<longrightarrow> (NeedTransfer cfg mtns Equal (Some d) s \<longleftrightarrow> Size s \<noteq> Size d))"
proof -
  note dec = update_older_decision [OF assms, of Equal d s]
  have newer: "effectiveWindow cfg mtns \<le> ModTime d - ModTime s
      \<longrightarrow> \<not> NeedTransfer cfg mtns Equal (Some d) s"
    using dec by simp
  have older: "ModTime d - ModTime s \<le> - effectiveWindow cfg mtns
      \<longrightarrow> NeedTransfer cfg mtns Equal (Some d) s"
    using dec assms(4) by auto
  have within: "- effectiveWindow cfg mtns < ModTime d - ModTime s
      \<and> ModTime d - ModTime s < effectiveWindow cfg mtns
      \<longrightarrow> (NeedTransfer cfg mtns Equal (Some d) s \<longleftrightarrow> Size s \<noteq> Size d)"
    using dec by auto
  from newer older within show ?thesis by blast
qed

theorem NeedTransfer_update_older_witness:
  "UpdateOlder example_Config \<and> \<not> IgnoreExisting example_Config \<and> \<not> IgnoreTimes example_Config
   \<and> 0 < effectiveWindow example_Config hundredYears
   \<and> - effectiveWindow example_Config hundredYears
        < ModTime example_Object - ModTime (example_Object\<lparr>Size := 21\<rparr>)
   \<and> ModTime example_Object - ModTime (example_Object\<lparr>Size := 21\<rparr>)
        < effectiveWindow example_Config hundredYears
   \<and> NeedTransfer example_Config hundredYears sizeEqual (Some example_Object)
        (example_Object\<lparr>Size := 21\<rparr>)"
  using NeedTransfer_update_older [where cfg = example_Config and mtns = hundredYears
      and d = example_Object and s = "example_Object\<lparr>Size := 21\<rparr>" and Equal = sizeEqual]
  by (simp add: example_Config_def example_Object_def effectiveWindow_def hundredYears_def)

text \<open>
  The claim as written measures against the configured window. With the configured
  window at the sentinel (a hundred years), a destination two seconds newer than the
  source and of another size lies strictly within that window, and is skipped. With a
  window of zero and equal times the difference is both at least the window and at most
  its negation, and the object is skipped.
\<close>

theorem NeedTransfer_update_older_counterexample:
  "UpdateOlder (example_Config\<lparr>ModifyWindow := hundredYears\<rparr>)
   \<and> \<not> IgnoreExisting (example_Config\<lparr>ModifyWindow := hundredYears\<rparr>)
   \<and> \<not> IgnoreTimes (example_Config\<lparr>ModifyWindow := hundredYears\<rparr>)
   \<and> - sint (ModifyWindow (example_Config\<lparr>ModifyWindow := hundredYears\<rparr>))
        < ModTime (example_Object\<lparr>ModTime := 981173108999999999, Size := 21\<rparr>)
          - ModTime example_Object
   \<and> ModTime (example_Object\<lparr>ModTime := 981173108999999999, Size := 21\<rparr>)
          - ModTime example_Object
        < sint (ModifyWindow (example_Config\<lparr>ModifyWindow := hundredYears\<rparr>))
   \<and> Size example_Object \<noteq> Size (example_Object\<lparr>ModTime := 981173108999999999, Size := 21\<rparr>)
   \<and> \<not> NeedTransfer (example_Config\<lparr>ModifyWindow := hundredYears\<rparr>) hundredYears sizeEqual
          (Some (example_Object\<lparr>ModTime := 981173108999999999, Size := 21\<rparr>)) example_Object
   \<and> ModTime example_Object - ModTime example_Object
        \<le> - sint (ModifyWindow (example_Config\<lparr>ModifyWindow := 0\<rparr>))
   \<and> \<not> NeedTransfer (example_Config\<lparr>ModifyWindow := 0\<rparr>) hundredYears sizeEqual
          (Some example_Object) example_Object"
  by (simp add: example_Config_def example_Object_def hundredYears_def NeedTransfer_def
      Time_Sub_def Second_def Let_def)

text \<open>
  C9. With \<^verbatim>\<open>--update\<close> on, \<^verbatim>\<open>--ignore-existing\<close> and \<^verbatim>\<open>--ignore-times\<close> off,
  the destination present and the configured modify window equal to the sentinel
  \<^verbatim>\<open>ModTimeNotSupported\<close>, \<open>NeedTransfer\<close> returns the result of the three-way
  comparison with a window of one second (1000000000 ns): skip when the destination is
  at least a second newer, transfer when it is at least a second older, and in between
  transfer exactly when the sizes differ.
\<close>

theorem NeedTransfer_sentinel_window:
  assumes "UpdateOlder cfg" and "\<not> IgnoreExisting cfg" and "\<not> IgnoreTimes cfg"
    and "ModifyWindow cfg = mtns"
  shows "NeedTransfer cfg mtns Equal (Some d) s =
     (if 1000000000 \<le> ModTime d - ModTime s then False
      else if ModTime d - ModTime s \<le> - 1000000000 then True
      else Size s \<noteq> Size d)"
proof -
  have w: "effectiveWindow cfg mtns = 1000000000"
    using assms(4) by (simp add: effectiveWindow_def Second_def)
  then have "0 < effectiveWindow cfg mtns" by simp
  from update_older_decision [OF assms(1-3) this, of Equal d s] show ?thesis
    unfolding w .
qed

theorem NeedTransfer_sentinel_window_witness:
  "UpdateOlder (example_Config\<lparr>ModifyWindow := hundredYears\<rparr>)
   \<and> \<not> IgnoreExisting (example_Config\<lparr>ModifyWindow := hundredYears\<rparr>)
   \<and> \<not> IgnoreTimes (example_Config\<lparr>ModifyWindow := hundredYears\<rparr>)
   \<and> ModifyWindow (example_Config\<lparr>ModifyWindow := hundredYears\<rparr>) = hundredYears
   \<and> NeedTransfer (example_Config\<lparr>ModifyWindow := hundredYears\<rparr>) hundredYears sizeEqual
        (Some (example_Object\<lparr>ModTime := 981173105999999999\<rparr>)) example_Object"
  using NeedTransfer_sentinel_window [where cfg = "example_Config\<lparr>ModifyWindow := hundredYears\<rparr>"
      and mtns = hundredYears and d = "example_Object\<lparr>ModTime := 981173105999999999\<rparr>"
      and s = example_Object and Equal = sizeEqual]
  by (simp add: example_Config_def example_Object_def)

section \<open>Properties of the construction\<close>

lemma GetOne_loop_HashNone:
  "i + n \<le> 64 \<Longrightarrow>
     GetOne_loop n i h = HashNone \<longleftrightarrow> (\<forall>j. i \<le> j \<and> j < i + n \<longrightarrow> \<not> bit h j)"
proof (induction n arbitrary: i)
  case 0
  show ?case by auto
next
  case (Suc n)
  have nz: "push_bit i (1 :: 64 word) \<noteq> 0"
    using Suc.prems by (simp add: push_bit_eq_0_iff)
  have split: "(\<forall>j. i \<le> j \<and> j < i + Suc n \<longrightarrow> \<not> bit h j) \<longleftrightarrow>
        (\<not> bit h i \<and> (\<forall>j. Suc i \<le> j \<and> j < Suc i + n \<longrightarrow> \<not> bit h j))"
    by (metis Suc_leD Suc_le_eq add_Suc add_Suc_right le_eq_less_or_eq le_add1
        less_add_Suc1 not_less_eq_eq)
  with Suc.IH [of "Suc i"] Suc.prems nz show ?case
    by (simp add: HashNone_def)
qed

lemma GetOne_HashNone: "GetOne h = HashNone \<longleftrightarrow> h = 0"
proof -
  have "GetOne h = HashNone \<longleftrightarrow> (\<forall>j<64. \<not> bit h j)"
    by (simp add: GetOne_def GetOne_loop_HashNone)
  also have "\<dots> \<longleftrightarrow> h = 0"
    by (auto simp: bit_eq_iff dest: bit_imp_le_length)
  finally show ?thesis .
qed

lemma Overlap_shareHash: "Overlap (Hashes a) (Hashes b) \<noteq> 0 \<longleftrightarrow> shareHash a b"
proof
  assume "Overlap (Hashes a) (Hashes b) \<noteq> 0"
  then show "shareHash a b"
    by (auto simp: Overlap_def shareHash_def bit_eq_iff bit_and_iff)
next
  assume "shareHash a b"
  then obtain i where "bit (Hashes a AND Hashes b) i"
    by (auto simp: shareHash_def bit_and_iff)
  then show "Overlap (Hashes a) (Hashes b) \<noteq> 0"
    by (auto simp: Overlap_def)
qed

lemma newSyncCopyMove_trackRenames:
  assumes "newSyncCopyMove cfg NewFs SameConfig Overlapping fd fs dm mv = Inr s"
  shows "trackRenames s \<longleftrightarrow>
     TrackRenames cfg \<and> CanServerSideMove fd \<and> GetOne (Overlap (Hashes fs) (Hashes fd)) \<noteq> HashNone"
  using assms
  by (auto simp: newSyncCopyMove_def Let_def split: if_splits sum.splits)

lemma newSyncCopyMove_deleteMode:
  assumes "newSyncCopyMove cfg NewFs SameConfig Overlapping fd fs dm mv = Inr s"
  shows "deleteMode s =
     (if trackRenames s \<and> dm \<noteq> DeleteModeOff then DeleteModeAfter else dm)"
  using assms
  by (auto simp: newSyncCopyMove_def Let_def split: if_splits sum.splits)

text \<open>
  C4 (amended). When \<open>newSyncCopyMove\<close> returns a state and track-renames was
  requested, track-renames is enabled in the state exactly when the destination supports
  server-side move or copy and source and destination share a hash type; and when it is
  enabled, the delete mode of the state is delete-after unless the delete mode asked for
  is off, which stays off.
\<close>

theorem newSyncCopyMove_track_renames:
  assumes "newSyncCopyMove cfg NewFs SameConfig Overlapping fd fs dm mv = Inr s"
    and "TrackRenames cfg"
  shows "(trackRenames s \<longleftrightarrow> CanServerSideMove fd \<and> shareHash fs fd)
       \<and> (trackRenames s \<longrightarrow>
            deleteMode s = (if dm = DeleteModeOff then DeleteModeOff else DeleteModeAfter))"
proof -
  have "trackRenames s \<longleftrightarrow> CanServerSideMove fd \<and> shareHash fs fd"
    using newSyncCopyMove_trackRenames [OF assms(1)] assms(2)
    by (simp add: GetOne_HashNone Overlap_shareHash)
  moreover have "trackRenames s \<longrightarrow>
      deleteMode s = (if dm = DeleteModeOff then DeleteModeOff else DeleteModeAfter)"
    using newSyncCopyMove_deleteMode [OF assms(1)] by simp
  ultimately show ?thesis by simp
qed

theorem newSyncCopyMove_track_renames_witness:
  "newSyncCopyMove (example_Config\<lparr>TrackRenames := True\<rparr>) noNewFs sameName sameName
      example_Fs (example_Fs\<lparr>Name := ''local''\<rparr>) DeleteModeDuring False
     = Inr (example_state\<lparr>deleteMode := DeleteModeAfter, trackRenames := True\<rparr>)
   \<and> TrackRenames (example_Config\<lparr>TrackRenames := True\<rparr>)
   \<and> trackRenames (example_state\<lparr>deleteMode := DeleteModeAfter, trackRenames := True\<rparr>)
   \<and> CanServerSideMove example_Fs \<and> shareHash (example_Fs\<lparr>Name := ''local''\<rparr>) example_Fs
   \<and> deleteMode (example_state\<lparr>deleteMode := DeleteModeAfter, trackRenames := True\<rparr>)
       = DeleteModeAfter"
proof -
  have run: "newSyncCopyMove (example_Config\<lparr>TrackRenames := True\<rparr>) noNewFs sameName sameName
      example_Fs (example_Fs\<lparr>Name := ''local''\<rparr>) DeleteModeDuring False
     = Inr (example_state\<lparr>deleteMode := DeleteModeAfter, trackRenames := True\<rparr>)"
    by (simp add: newSyncCopyMove_def example_Config_def example_Fs_def example_state_def
        CanServerSideMove_def Overlap_def GetOne_def HashNone_def Let_def eval_nat_numeral)
  have req: "TrackRenames (example_Config\<lparr>TrackRenames := True\<rparr>)" by simp
  from newSyncCopyMove_track_renames [OF run req] run req show ?thesis by simp
qed

text \<open>
  A copy with track-renames (delete mode off) between two remotes that can move and
  share a hash: track-renames stays enabled and the delete mode stays off.
\<close>

theorem newSyncCopyMove_track_renames_counterexample:
  "newSyncCopyMove (example_Config\<lparr>TrackRenames := True\<rparr>) noNewFs sameName sameName
      example_Fs (example_Fs\<lparr>Name := ''local''\<rparr>) DeleteModeOff False
     = Inr (example_state\<lparr>deleteMode := DeleteModeOff, trackRenames := True\<rparr>)
   \<and> trackRenames (example_state\<lparr>deleteMode := DeleteModeOff, trackRenames := True\<rparr>)
   \<and> deleteMode (example_state\<lparr>deleteMode := DeleteModeOff, trackRenames := True\<rparr>)
       \<noteq> DeleteModeAfter"
  by (simp add: newSyncCopyMove_def example_Config_def example_Fs_def example_state_def
      CanServerSideMove_def Overlap_def GetOne_def HashNone_def Let_def eval_nat_numeral)

section \<open>Properties of the deletion pass\<close>

lemma currentError_processError_Some: "currentError (processError s (Some e)) \<noteq> None"
  by (simp add: currentError_def processError_def close_abort_def Let_def)

text \<open>
  C5. In delete-after mode, when an error is recorded (\<open>currentError\<close> is not nil) or
  the error counter is non-zero, the deletion pass at the end of \<open>runDirAtATime\<close>
  leaves the destination as it was: either \<open>deleteFiles\<close> is not called (an error is
  recorded), or it is called and returns \<open>ErrorNotDeleting\<close> without handing any
  object to the deletion. The run then ends with an error.
\<close>

theorem delete_after_suppressed:
  assumes "deleteMode s = DeleteModeAfter"
    and "currentError s \<noteq> None \<or> Errored stats"
  shows "snd (runDirAtATime_deleteAfter deleteFilesWithBackupDir rangeOrder stats s w) = w
       \<and> (currentError s \<noteq> None \<longrightarrow>
            runDirAtATime_deleteAfter deleteFilesWithBackupDir rangeOrder stats s w = (s, w))
       \<and> (currentError s = None \<longrightarrow>
            deleteFiles deleteFilesWithBackupDir rangeOrder stats s False w
              = (Some ErrorNotDeleting, w))
       \<and> currentError (fst (runDirAtATime_deleteAfter deleteFilesWithBackupDir rangeOrder stats s w))
            \<noteq> None"
proof (cases "currentError s \<noteq> None")
  case True
  then show ?thesis
    using assms(1) by (auto simp: runDirAtATime_deleteAfter_def)
next
  case False
  then have "Errored stats" using assms(2) by simp
  then have del: "deleteFiles deleteFilesWithBackupDir rangeOrder stats s False w
      = (Some ErrorNotDeleting, w)"
    by (simp add: deleteFiles_def)
  have run: "runDirAtATime_deleteAfter deleteFilesWithBackupDir rangeOrder stats s w
      = (processError s (Some ErrorNotDeleting), w)"
    using assms(1) False del by (simp add: runDirAtATime_deleteAfter_def)
  show ?thesis
    using False del run by (simp add: currentError_processError_Some)
qed

theorem delete_after_suppressed_witness:
  "deleteMode (example_state\<lparr>dstFiles := [''potato'' \<mapsto> example_Object]\<rparr>) = DeleteModeAfter
   \<and> Errored \<lparr>statErrors = 1\<rparr>
   \<and> snd (runDirAtATime_deleteAfter example_delete example_rangeOrder \<lparr>statErrors = 1\<rparr>
          (example_state\<lparr>dstFiles := [''potato'' \<mapsto> example_Object]\<rparr>) [''empty'', ''potato''])
       = [''empty'', ''potato'']
   \<and> snd (runDirAtATime_deleteAfter example_delete example_rangeOrder \<lparr>statErrors = 0\<rparr>
          (example_state\<lparr>dstFiles := [''potato'' \<mapsto> example_Object]\<rparr>) [''empty'', ''potato''])
       = [''empty'']"
proof -
  have mode: "deleteMode (example_state\<lparr>dstFiles := [''potato'' \<mapsto> example_Object]\<rparr>)
      = DeleteModeAfter"
    by (simp add: example_state_def)
  have errd: "currentError (example_state\<lparr>dstFiles := [''potato'' \<mapsto> example_Object]\<rparr>) \<noteq> None
      \<or> Errored \<lparr>statErrors = 1\<rparr>"
    by (simp add: Errored_def)
  have run: "snd (runDirAtATime_deleteAfter example_delete example_rangeOrder \<lparr>statErrors = 0\<rparr>
          (example_state\<lparr>dstFiles := [''potato'' \<mapsto> example_Object]\<rparr>) [''empty'', ''potato''])
       = [''empty'']"
    by (simp add: runDirAtATime_deleteAfter_def deleteFiles_def example_state_def
        currentError_def Errored_def example_rangeOrder_def example_delete_def aborting_def
        example_Object_def)
  from delete_after_suppressed [OF mode errd, of example_delete example_rangeOrder
      "[''empty'', ''potato'']"] mode run
  show ?thesis by (simp add: Errored_def)
qed

section \<open>Properties of the checkers\<close>





section \<open>Properties of the repeatable reader\<close>

lemma Seek_within:
  assumes "Seek_abs r offset whence = Some p" and "0 \<le> p" and "p \<le> int (length (rr_b r))"
  shows "Seek r offset whence = (p, None, r\<lparr>rr_i := p\<rparr>)"
  using assms by (simp add: Seek_def)

lemma Seek_beyond:
  assumes "Seek_abs r offset whence = Some p" and "int (length (rr_b r)) < p"
  shows "\<exists>ret e. Seek r offset whence = (ret, Some e, r)"
  using assms by (simp add: Seek_def)

lemma Read_buffered:
  assumes "0 \<le> p" and "p < int (length (rr_b r))"
  shows "Read rd (r\<lparr>rr_i := p\<rparr>) len =
     Some (take len (drop (nat p) (rr_b r)), None,
           r\<lparr>rr_i := p + int (min len (length (rr_b r) - nat p))\<rparr>)"
  using assms by (simp add: Read_def Let_def min_def)

lemma rr_inv_New: "rr_inv (NewRepeatableReader (x, []))"
  by (simp add: rr_inv_def NewRepeatableReader_def)

lemma rr_inv_Seek: "rr_inv r \<Longrightarrow> rr_inv (snd (snd (Seek r offset whence)))"
  by (auto simp: rr_inv_def Seek_def Let_def split: option.splits)

lemma rr_inv_Read:
  "rr_inv r \<Longrightarrow> Read (logged rd) r len = Some (data, e, r') \<Longrightarrow> rr_inv r'"
  by (auto simp: rr_inv_def Read_def logged_def Let_def split: if_splits prod.splits)

lemma rr_inv_run_calls:
  "rr_inv r \<Longrightarrow> run_calls (logged rd) r cs = Some r' \<Longrightarrow> rr_inv r'"
proof (induction cs arbitrary: r)
  case Nil
  then show ?case by simp
next
  case (Cons c cs)
  show ?case
  proof (cases c)
    case (CallSeek offset whence)
    with Cons show ?thesis by (auto intro: rr_inv_Seek)
  next
    case (CallRead len)
    with Cons show ?thesis
      by (auto split: option.splits dest: rr_inv_Read)
  qed
qed

lemma Read_no_panic:
  assumes "rr_inv r" and "\<forall>x n. length (fst (rd x n)) \<le> n"
  shows "\<exists>data e r'. Read (logged rd) r len = Some (data, e, r')"
proof (cases "rr_i r = int (length (rr_b r))")
  case True
  obtain data e x' where got: "rd (fst (rr_in r)) len = (data, e, x')"
    by (cases "rd (fst (rr_in r)) len") auto
  have "length data \<le> len"
    using assms(2) got by (metis fst_conv)
  then show ?thesis
    using True got by (simp add: Read_def logged_def Let_def)
next
  case False
  then show ?thesis
    using assms(1) by (auto simp: Read_def rr_inv_def Let_def)
qed

lemma run_calls_no_panic:
  assumes "\<forall>x n. length (fst (rd x n)) \<le> n"
  shows "rr_inv r \<Longrightarrow> \<exists>r'. run_calls (logged rd) r cs = Some r'"
proof (induction cs arbitrary: r)
  case Nil
  show ?case by simp
next
  case (Cons c cs)
  show ?case
  proof (cases c)
    case (CallSeek offset whence)
    then show ?thesis
      using Cons.IH [OF rr_inv_Seek [OF Cons.prems]] by simp
  next
    case (CallRead len)
    from Read_no_panic [OF Cons.prems assms]
    obtain data e r1 where rd1: "Read (logged rd) r len = Some (data, e, r1)" by blast
    have "rr_inv r1" using Cons.prems rd1 by (rule rr_inv_Read)
    from Cons.IH [OF this] show ?thesis
      using CallRead rd1 by simp
  qed
qed

text \<open>
  C6. For a reader whose cache holds L bytes: a \<open>Seek\<close> whose position resolves to
  \<open>p\<close> with \<open>0 \<le> p \<le> L\<close> returns \<open>p\<close> with no error and sets the index to \<open>p\<close>,
  and a \<open>Read\<close> after it, when \<open>p < L\<close>, returns the cached bytes from position
  \<open>p\<close> (as many as the buffer takes), without touching the input reader, and advances
  the index by their number; a \<open>Seek\<close> whose position resolves beyond L returns an
  error and leaves the reader, index included, as it was. Over any sequence of calls on
  a new reader, the cache is exactly the sequence of bytes the input reader delivered,
  each once and in order; and no call panics when the input reader never delivers more
  than the buffer takes.
\<close>

theorem RepeatableReader_seek_cache:
  "(Seek_abs r offset whence = Some p \<and> 0 \<le> p \<and> p \<le> int (length (rr_b r)) \<longrightarrow>
      Seek r offset whence = (p, None, r\<lparr>rr_i := p\<rparr>)
      \<and> (p < int (length (rr_b r)) \<longrightarrow>
           Read rd (r\<lparr>rr_i := p\<rparr>) len =
             Some (take len (drop (nat p) (rr_b r)), None,
                   r\<lparr>rr_i := p + int (min len (length (rr_b r) - nat p))\<rparr>)))
   \<and> (Seek_abs r offset whence = Some p \<and> int (length (rr_b r)) < p \<longrightarrow>
        (\<exists>ret e. Seek r offset whence = (ret, Some e, r)))
   \<and> (run_calls (logged rd') (NewRepeatableReader (x, [])) cs = Some r' \<longrightarrow>
        rr_b r' = snd (rr_in r'))
   \<and> ((\<forall>y n. length (fst (rd' y n)) \<le> n) \<longrightarrow>
        (\<exists>r''. run_calls (logged rd') (NewRepeatableReader (x, [])) cs = Some r''))"
proof -
  have within: "Seek_abs r offset whence = Some p \<and> 0 \<le> p \<and> p \<le> int (length (rr_b r)) \<longrightarrow>
      Seek r offset whence = (p, None, r\<lparr>rr_i := p\<rparr>)
      \<and> (p < int (length (rr_b r)) \<longrightarrow>
           Read rd (r\<lparr>rr_i := p\<rparr>) len =
             Some (take len (drop (nat p) (rr_b r)), None,
                   r\<lparr>rr_i := p + int (min len (length (rr_b r) - nat p))\<rparr>))"
    using Seek_within [of r offset whence p] Read_buffered [of p r rd len] by blast
  have beyond: "Seek_abs r offset whence = Some p \<and> int (length (rr_b r)) < p \<longrightarrow>
        (\<exists>ret e. Seek r offset whence = (ret, Some e, r))"
    using Seek_beyond [of r offset whence p] by blast
  have cache: "run_calls (logged rd') (NewRepeatableReader (x, [])) cs = Some r' \<longrightarrow>
        rr_b r' = snd (rr_in r')"
    using rr_inv_run_calls [OF rr_inv_New, of rd' x cs r'] by (simp add: rr_inv_def)
  have total: "(\<forall>y n. length (fst (rd' y n)) \<le> n) \<longrightarrow>
        (\<exists>r''. run_calls (logged rd') (NewRepeatableReader (x, [])) cs = Some r'')"
    using run_calls_no_panic [OF _ rr_inv_New, of rd' x cs] by blast
  from within beyond cache total show ?thesis by blast
qed

theorem RepeatableReader_seek_cache_witness:
  "Seek_abs example_rr 1 0 = Some 1 \<and> (0::int) \<le> 1 \<and> 1 \<le> int (length (rr_b example_rr))
   \<and> Seek example_rr 1 0 = (1, None, example_rr\<lparr>rr_i := 1\<rparr>)
   \<and> Read example_reader (example_rr\<lparr>rr_i := 1\<rparr>) 3
       = Some ([2, 3, 4], None, example_rr\<lparr>rr_i := 4\<rparr>)
   \<and> Seek_abs example_rr (- 3) 2 = Some 2
   \<and> Read example_reader (example_rr\<lparr>rr_i := 2\<rparr>) 8
       = Some ([3, 4, 5], None, example_rr\<lparr>rr_i := 5\<rparr>)
   \<and> Seek_abs example_rr 4 1 = Some 9 \<and> int (length (rr_b example_rr)) < 9
   \<and> (\<exists>ret e. Seek example_rr 4 1 = (ret, Some e, example_rr))
   \<and> (\<forall>y n. length (fst (example_reader y n)) \<le> n)
   \<and> run_calls (logged example_reader) (NewRepeatableReader ([1, 2, 3, 4, 5], []))
        [CallRead 4, CallRead 1, CallSeek 1 0, CallRead 4, CallSeek 9 0, CallRead 4]
       = Some \<lparr>rr_in = ([], [1, 2, 3, 4, 5]), rr_i = 5, rr_b = [1, 2, 3, 4, 5]\<rparr>"
proof -
  have len: "\<forall>y n. length (fst (example_reader y n)) \<le> n"
    by (auto simp: example_reader_def)
  have run: "run_calls (logged example_reader) (NewRepeatableReader ([1, 2, 3, 4, 5], []))
        [CallRead 4, CallRead 1, CallSeek 1 0, CallRead 4, CallSeek 9 0, CallRead 4]
       = Some \<lparr>rr_in = ([], [1, 2, 3, 4, 5]), rr_i = 5, rr_b = [1, 2, 3, 4, 5]\<rparr>"
    by (simp add: NewRepeatableReader_def Read_def Seek_def Seek_abs_def logged_def
        example_reader_def Let_def)
  have s1: "Seek_abs example_rr 1 0 = Some 1 \<and> (0::int) \<le> 1 \<and> 1 \<le> int (length (rr_b example_rr))"
    by (simp add: Seek_abs_def example_rr_def)
  have s2: "Seek_abs example_rr (- 3) 2 = Some 2 \<and> (0::int) \<le> 2 \<and> 2 \<le> int (length (rr_b example_rr))"
    by (simp add: Seek_abs_def example_rr_def wrap64_def)
  have s3: "Seek_abs example_rr 4 1 = Some 9 \<and> int (length (rr_b example_rr)) < 9"
    by (simp add: Seek_abs_def example_rr_def wrap64_def)
  from RepeatableReader_seek_cache [where r = example_rr and offset = 1 and whence = 0
      and p = 1 and rd = example_reader and len = 3 and rd' = example_reader
      and x = "[1, 2, 3, 4, 5]"
      and cs = "[CallRead 4, CallRead 1, CallSeek 1 0, CallRead 4, CallSeek 9 0, CallRead 4]"
      and r' = "\<lparr>rr_in = ([], [1, 2, 3, 4, 5]), rr_i = 5, rr_b = [1, 2, 3, 4, 5]\<rparr>"]
    RepeatableReader_seek_cache [where r = example_rr and offset = "- 3" and whence = 2
      and p = 2 and rd = example_reader and len = 8 and rd' = example_reader
      and x = "[1, 2, 3, 4, 5]" and cs = "[]"
      and r' = "NewRepeatableReader ([1, 2, 3, 4, 5], [])"]
    RepeatableReader_seek_cache [where r = example_rr and offset = 4 and whence = 1
      and p = 9 and rd = example_reader and len = 8 and rd' = example_reader
      and x = "[1, 2, 3, 4, 5]" and cs = "[]"
      and r' = "NewRepeatableReader ([1, 2, 3, 4, 5], [])"]
    s1 s2 s3 len run
  show ?thesis
    by (simp add: example_rr_def)
qed

section \<open>Properties of the upload URL pool\<close>

text \<open>
  C7 (amended). When \<open>Update\<close> has obtained an upload URL from \<open>getUploadURL\<close> and
  the response to the upload is not an expired authorization (status 401), the URL is
  put back at the end of the pool when \<open>Update\<close> returns, whether the upload
  succeeded or failed; the error returned is the one of the upload call.
\<close>

theorem Update_returns_upload_URL:
  assumes "prepareErr env = None"
    and "getUploadURL f env = (Inr upload, f1)"
    and "uploadStatus env \<noteq> Some 401"
  shows "snd (Update f env) = f1\<lparr>uploads := uploads f1 @ [upload]\<rparr>
       \<and> fst (Update f env) = CallNoRetry (retryable env, uploadErr env)"
  using assms
  by (simp add: Update_def shouldRetry_def returnUploadURL_def)

theorem Update_returns_upload_URL_witness:
  "prepareErr (example_env\<lparr>uploadStatus := Some 200, uploadErr := None, retryable := False\<rparr>) = None
   \<and> getUploadURL example_b2
        (example_env\<lparr>uploadStatus := Some 200, uploadErr := None, retryable := False\<rparr>)
       = (Inr example_upload, example_b2\<lparr>uploads := []\<rparr>)
   \<and> uploadStatus (example_env\<lparr>uploadStatus := Some 200, uploadErr := None, retryable := False\<rparr>)
       \<noteq> Some 401
   \<and> Update example_b2
        (example_env\<lparr>uploadStatus := Some 200, uploadErr := None, retryable := False\<rparr>)
       = (None, example_b2)"
proof -
  have p: "prepareErr (example_env\<lparr>uploadStatus := Some 200, uploadErr := None, retryable := False\<rparr>)
      = None"
    by (simp add: example_env_def)
  have g: "getUploadURL example_b2
        (example_env\<lparr>uploadStatus := Some 200, uploadErr := None, retryable := False\<rparr>)
       = (Inr example_upload, example_b2\<lparr>uploads := []\<rparr>)"
    by (simp add: getUploadURL_def getBucketID_def example_b2_def)
  have st: "uploadStatus (example_env\<lparr>uploadStatus := Some 200, uploadErr := None, retryable := False\<rparr>)
       \<noteq> Some 401"
    by simp
  from Update_returns_upload_URL [OF p g st] p g st show ?thesis
    by (cases "Update example_b2
        (example_env\<lparr>uploadStatus := Some 200, uploadErr := None, retryable := False\<rparr>)")
      (simp add: CallNoRetry_def example_b2_def)
qed

text \<open>
  An upload that fails with status 500: \<open>Update\<close> returns the error, and the URL it
  had taken from the pool is in the pool again.
\<close>

theorem Update_returns_upload_URL_counterexample:
  "fst (getUploadURL example_b2 example_env) = Inr example_upload
   \<and> fst (Update example_b2 example_env) = Some (errors_New ''internal error'')
   \<and> uploads (snd (Update example_b2 example_env)) = [example_upload]"
  by (simp add: Update_def getUploadURL_def getBucketID_def shouldRetry_def returnUploadURL_def
      CallNoRetry_def RetryError_def example_b2_def example_env_def)

section \<open>Properties of the merge of two listings\<close>

lemma aborting_dstOnly: "dstOnly s d job jobs = Some (s', jobs') \<Longrightarrow> aborting s' = aborting s"
  by (auto simp: dstOnly_def aborting_def split: if_splits BasicInfo.splits DeleteMode.splits)

lemma aborting_srcOnly: "srcOnly s a job jobs = (s', jobs') \<Longrightarrow> aborting s' = aborting s"
  by (auto simp: srcOnly_def aborting_def split: if_splits BasicInfo.splits)

lemma aborting_transfer: "transfer s d a job jobs = (s', jobs') \<Longrightarrow> aborting s' = aborting s"
  by (auto simp: transfer_def aborting_def processError_def errors_New_def IsFatalError_def
      IsNoRetryError_def split: if_splits BasicInfo.splits)

lemma merge_loop_classes:
  "\<not> aborting s \<Longrightarrow> 0 \<le> iSrc \<Longrightarrow> 0 \<le> iDst \<Longrightarrow>
     merge_loop s job srcList dstList iSrc iDst jobs =
       run_classes s job (merge_classes (drop (nat iSrc) srcList) (drop (nat iDst) dstList)) jobs"
proof (induction s job srcList dstList iSrc iDst jobs rule: merge_loop.induct)
  case (1 s job srcList dstList iSrc iDst jobs)
  note ab = \<open>\<not> aborting s\<close> and i0 = \<open>0 \<le> iSrc\<close> and j0 = \<open>0 \<le> iDst\<close>
  have neg: "\<not> (iSrc < 0 \<or> iDst < 0)" using i0 j0 by simp
  have sucI: "nat (iSrc + 1) = Suc (nat iSrc)" using i0 by simp
  have sucJ: "nat (iDst + 1) = Suc (nat iDst)" using j0 by simp
  consider (both_end) "\<not> iSrc < int (length srcList)" "\<not> iDst < int (length dstList)"
    | (src_end) "\<not> iSrc < int (length srcList)" "iDst < int (length dstList)"
    | (dst_end) "iSrc < int (length srcList)" "\<not> iDst < int (length dstList)"
    | (lt) "iSrc < int (length srcList)" "iDst < int (length dstList)"
        "Remote_of (srcList ! nat iSrc) < Remote_of (dstList ! nat iDst)"
    | (gt) "iSrc < int (length srcList)" "iDst < int (length dstList)"
        "\<not> Remote_of (srcList ! nat iSrc) < Remote_of (dstList ! nat iDst)"
        "Remote_of (dstList ! nat iDst) < Remote_of (srcList ! nat iSrc)"
    | (eq) "iSrc < int (length srcList)" "iDst < int (length dstList)"
        "\<not> Remote_of (srcList ! nat iSrc) < Remote_of (dstList ! nat iDst)"
        "\<not> Remote_of (dstList ! nat iDst) < Remote_of (srcList ! nat iSrc)"
    by blast
  then show ?case
  proof cases
    case both_end
    then have "drop (nat iSrc) srcList = []" "drop (nat iDst) dstList = []" by auto
    then show ?thesis
      using ab neg both_end by (simp add: merge_loop.simps [of s job srcList dstList iSrc iDst jobs])
  next
    case src_end
    then have ds: "drop (nat iSrc) srcList = []" by auto
    have ds': "drop (nat (iSrc + 1)) srcList = []" using src_end by auto
    have dd: "drop (nat iDst) dstList = dstList ! nat iDst # drop (Suc (nat iDst)) dstList"
      using src_end j0 by (intro Cons_nth_drop_Suc [symmetric]) auto
    show ?thesis
    proof (cases "dstOnly s (dstList ! nat iDst) job jobs")
      case None
      then show ?thesis
        using ab neg src_end ds dd
        by (simp add: merge_loop.simps [of s job srcList dstList iSrc iDst jobs])
    next
      case (Some r)
      obtain s' jobs' where r: "r = (s', jobs')" by (cases r)
      have ab': "\<not> aborting s'" using aborting_dstOnly Some r ab by blast
      have "merge_loop s' job srcList dstList (iSrc + 1) (iDst + 1) jobs' =
          run_classes s' job (merge_classes (drop (nat (iSrc + 1)) srcList)
             (drop (nat (iDst + 1)) dstList)) jobs'"
        using "1.IH"(1) [OF ab neg _ src_end(1) Some r [symmetric] ab'] src_end i0 j0
        by simp
      then show ?thesis
        using ab neg src_end ds ds' dd Some r sucJ
        by (simp add: merge_loop.simps [of s job srcList dstList iSrc iDst jobs])
    qed
  next
    case dst_end
    then have dd: "drop (nat iDst) dstList = []" by auto
    have dd': "drop (nat (iDst + 1)) dstList = []" using dst_end by auto
    have ds: "drop (nat iSrc) srcList = srcList ! nat iSrc # drop (Suc (nat iSrc)) srcList"
      using dst_end i0 by (intro Cons_nth_drop_Suc [symmetric]) auto
    obtain s' jobs' where r: "srcOnly s (srcList ! nat iSrc) job jobs = (s', jobs')"
      by (cases "srcOnly s (srcList ! nat iSrc) job jobs")
    have ab': "\<not> aborting s'" using aborting_srcOnly r ab by blast
    have "merge_loop s' job srcList dstList (iSrc + 1) (iDst + 1) jobs' =
        run_classes s' job (merge_classes (drop (nat (iSrc + 1)) srcList)
           (drop (nat (iDst + 1)) dstList)) jobs'"
      using "1.IH"(2) [OF ab neg _ _ _ r [symmetric] ab'] dst_end i0 j0
      by simp
    then show ?thesis
      using ab neg dst_end ds dd dd' r sucI
      by (simp add: merge_loop.simps [of s job srcList dstList iSrc iDst jobs])
  next
    case lt
    have ds: "drop (nat iSrc) srcList = srcList ! nat iSrc # drop (Suc (nat iSrc)) srcList"
      using lt i0 by (intro Cons_nth_drop_Suc [symmetric]) auto
    have dd: "drop (nat iDst) dstList = dstList ! nat iDst # drop (Suc (nat iDst)) dstList"
      using lt j0 by (intro Cons_nth_drop_Suc [symmetric]) auto
    obtain s' jobs' where r: "srcOnly s (srcList ! nat iSrc) job jobs = (s', jobs')"
      by (cases "srcOnly s (srcList ! nat iSrc) job jobs")
    have ab': "\<not> aborting s'" using aborting_srcOnly r ab by blast
    have ne: "Remote_of (srcList ! nat iSrc) \<noteq> Remote_of (dstList ! nat iDst)"
      using lt(3) by auto
    have "merge_loop s' job srcList dstList (iSrc + 1) (iDst - 1 + 1) jobs' =
        run_classes s' job (merge_classes (drop (nat (iSrc + 1)) srcList)
           (drop (nat (iDst - 1 + 1)) dstList)) jobs'"
      using "1.IH"(3) [OF ab neg _ _ _ lt(3) r [symmetric] ab'] lt i0 j0
      by simp
    then show ?thesis
      using ab neg lt ds dd ne r sucI
      by (simp add: merge_loop.simps [of s job srcList dstList iSrc iDst jobs])
  next
    case gt
    have ds: "drop (nat iSrc) srcList = srcList ! nat iSrc # drop (Suc (nat iSrc)) srcList"
      using gt i0 by (intro Cons_nth_drop_Suc [symmetric]) auto
    have dd: "drop (nat iDst) dstList = dstList ! nat iDst # drop (Suc (nat iDst)) dstList"
      using gt j0 by (intro Cons_nth_drop_Suc [symmetric]) auto
    have ne: "Remote_of (srcList ! nat iSrc) \<noteq> Remote_of (dstList ! nat iDst)"
      using gt(4) by auto
    show ?thesis
    proof (cases "dstOnly s (dstList ! nat iDst) job jobs")
      case None
      then show ?thesis
        using ab neg gt ds dd ne
        by (simp add: merge_loop.simps [of s job srcList dstList iSrc iDst jobs])
    next
      case (Some r)
      obtain s' jobs' where r: "r = (s', jobs')" by (cases r)
      have ab': "\<not> aborting s'" using aborting_dstOnly Some r ab by blast
      have "merge_loop s' job srcList dstList (iSrc - 1 + 1) (iDst + 1) jobs' =
          run_classes s' job (merge_classes (drop (nat (iSrc - 1 + 1)) srcList)
             (drop (nat (iDst + 1)) dstList)) jobs'"
        using "1.IH"(4) [OF ab neg _ _ _ gt(3) gt(4) Some r [symmetric] ab'] gt i0 j0
        by simp
      then show ?thesis
        using ab neg gt ds dd ne Some r sucJ
        by (simp add: merge_loop.simps [of s job srcList dstList iSrc iDst jobs])
    qed
  next
    case eq
    have ds: "drop (nat iSrc) srcList = srcList ! nat iSrc # drop (Suc (nat iSrc)) srcList"
      using eq i0 by (intro Cons_nth_drop_Suc [symmetric]) auto
    have dd: "drop (nat iDst) dstList = dstList ! nat iDst # drop (Suc (nat iDst)) dstList"
      using eq j0 by (intro Cons_nth_drop_Suc [symmetric]) auto
    have same: "Remote_of (srcList ! nat iSrc) = Remote_of (dstList ! nat iDst)"
      using eq(3,4) by auto
    obtain s' jobs' where r: "transfer s (dstList ! nat iDst) (srcList ! nat iSrc) job jobs = (s', jobs')"
      by (cases "transfer s (dstList ! nat iDst) (srcList ! nat iSrc) job jobs")
    have ab': "\<not> aborting s'" using aborting_transfer r ab by blast
    have "merge_loop s' job srcList dstList (iSrc + 1) (iDst + 1) jobs' =
        run_classes s' job (merge_classes (drop (nat (iSrc + 1)) srcList)
           (drop (nat (iDst + 1)) dstList)) jobs'"
      using "1.IH"(5) [OF ab neg _ _ _ eq(3) eq(4) r [symmetric] ab'] eq i0 j0
      by simp
    then show ?thesis
      using ab neg eq ds dd same r sucI sucJ
      by (simp add: merge_loop.simps [of s job srcList dstList iSrc iDst jobs])
  qed
qed

lemma class_srcs_merge: "class_srcs (merge_classes srcList dstList) = srcList"
  by (induction srcList dstList rule: merge_classes.induct) simp_all

lemma class_dsts_merge: "class_dsts (merge_classes srcList dstList) = dstList"
  by (induction srcList dstList rule: merge_classes.induct) simp_all

lemma SrcOnly_in_class_srcs: "SrcOnly a \<in> set cs \<Longrightarrow> a \<in> set (class_srcs cs)"
  by (induction cs rule: class_srcs.induct) auto

lemma DstOnly_in_class_dsts: "DstOnly d \<in> set cs \<Longrightarrow> d \<in> set (class_dsts cs)"
  by (induction cs rule: class_dsts.induct) auto

lemma SrcOnly_in_merge: "SrcOnly a \<in> set (merge_classes srcList dstList) \<Longrightarrow> a \<in> set srcList"
  using SrcOnly_in_class_srcs [of a "merge_classes srcList dstList"]
  by (simp add: class_srcs_merge)

lemma DstOnly_in_merge: "DstOnly d \<in> set (merge_classes srcList dstList) \<Longrightarrow> d \<in> set dstList"
  using DstOnly_in_class_dsts [of d "merge_classes srcList dstList"]
  by (simp add: class_dsts_merge)

lemma sorted_names_Cons:
  "sorted_names (a # as) \<longleftrightarrow> (\<forall>x\<in>set as. Remote_of a < Remote_of x) \<and> sorted_names as"
  by (auto simp: sorted_names_def)

lemma merge_classes_no_src: "c \<in> set (merge_classes [] ds) \<Longrightarrow> \<exists>y. c = DstOnly y"
  by (induction ds) auto

lemma merge_classes_no_dst: "c \<in> set (merge_classes as []) \<Longrightarrow> \<exists>x. c = SrcOnly x"
  by (induction as) auto

lemma merge_classes_right:
  "sorted_names srcList \<Longrightarrow> sorted_names dstList \<Longrightarrow>
     c \<in> set (merge_classes srcList dstList) \<Longrightarrow> class_right srcList dstList c"
proof (induction srcList dstList rule: merge_classes.induct)
  case 1
  then show ?case by simp
next
  case (2 d ds)
  from merge_classes_no_src [OF "2.prems"(3)] show ?case by auto
next
  case (3 a as)
  from merge_classes_no_dst [OF "3.prems"(3)] show ?case by auto
next
  case (4 a as d ds)
  note sa = \<open>sorted_names (a # as)\<close> and sd = \<open>sorted_names (d # ds)\<close>
  have sas: "sorted_names as" and a_lt: "\<forall>x\<in>set as. Remote_of a < Remote_of x"
    using sa by (simp_all add: sorted_names_Cons)
  have sds: "sorted_names ds" and d_lt: "\<forall>y\<in>set ds. Remote_of d < Remote_of y"
    using sd by (simp_all add: sorted_names_Cons)
  consider (eq) "Remote_of a = Remote_of d"
    | (lt) "Remote_of a \<noteq> Remote_of d" "Remote_of a < Remote_of d"
    | (gt) "Remote_of a \<noteq> Remote_of d" "\<not> Remote_of a < Remote_of d"
    by blast
  then show ?case
  proof cases
    case eq
    show ?thesis
    proof (cases "c = Matched a d")
      case True
      then show ?thesis using eq by simp
    next
      case False
      then have mem: "c \<in> set (merge_classes as ds)" using "4.prems"(3) eq by simp
      then have r: "class_right as ds c" using "4.IH"(1) [OF eq sas sds] by simp
      show ?thesis
      proof (cases c)
        case (DstOnly y)
        then have "y \<in> set ds" using mem DstOnly_in_merge by blast
        then have "Remote_of y \<noteq> Remote_of a" using d_lt eq by auto
        then show ?thesis using r DstOnly by simp
      next
        case (SrcOnly x)
        then have "x \<in> set as" using mem SrcOnly_in_merge by blast
        then have "Remote_of x \<noteq> Remote_of d" using a_lt eq by auto
        then show ?thesis using r SrcOnly by simp
      next
        case (Matched x y)
        then show ?thesis using r by simp
      qed
    qed
  next
    case lt
    have a_notin: "Remote_of a \<notin> set (map Remote_of (d # ds))"
      using lt d_lt by (auto dest: less_trans)
    show ?thesis
    proof (cases "c = SrcOnly a")
      case True
      then show ?thesis using a_notin by simp
    next
      case False
      then have mem: "c \<in> set (merge_classes as (d # ds))" using "4.prems"(3) lt by simp
      then have r: "class_right as (d # ds) c" using "4.IH"(2) [OF lt sas sd] by simp
      show ?thesis
      proof (cases c)
        case (DstOnly y)
        then have "y \<in> set (d # ds)" using mem DstOnly_in_merge by blast
        then have "Remote_of y \<in> set (map Remote_of (d # ds))" by (simp add: image_iff) blast
        then have "Remote_of y \<noteq> Remote_of a" using a_notin by metis
        then show ?thesis using r DstOnly by simp
      next
        case (SrcOnly x)
        then show ?thesis using r by simp
      next
        case (Matched x y)
        then show ?thesis using r by simp
      qed
    qed
  next
    case gt
    then have d_lt_a: "Remote_of d < Remote_of a" by auto
    have d_notin: "Remote_of d \<notin> set (map Remote_of (a # as))"
      using d_lt_a a_lt by (auto dest: less_trans)
    show ?thesis
    proof (cases "c = DstOnly d")
      case True
      then show ?thesis using d_notin by simp
    next
      case False
      then have mem: "c \<in> set (merge_classes (a # as) ds)" using "4.prems"(3) gt by simp
      then have r: "class_right (a # as) ds c" using "4.IH"(3) [OF gt sa sds] by simp
      show ?thesis
      proof (cases c)
        case (DstOnly y)
        then show ?thesis using r by simp
      next
        case (SrcOnly x)
        then have "x \<in> set (a # as)" using mem SrcOnly_in_merge by blast
        then have "Remote_of x \<in> set (map Remote_of (a # as))" by (simp add: image_iff) blast
        then have "Remote_of x \<noteq> Remote_of d" using d_notin by metis
        then show ?thesis using r SrcOnly by simp
      next
        case (Matched x y)
        then show ?thesis using r by simp
      qed
    qed
  qed
qed

lemma runDirAtATime_job_merge:
  assumes "listedErr (noSrc job) srcListing = None"
    and "listedErr (noDst job) dstListing = None
         \<or> listedErr (noDst job) dstListing = Some ErrorDirNotFound"
  shows "runDirAtATime_job s job srcListing dstListing =
     merge_loop s job (listed (noSrc job) srcListing) (listed (noDst job) dstListing) 0 0 []"
proof (cases srcListing; cases dstListing)
  fix sl se dl de
  assume sp: "srcListing = (sl, se)" and dp: "dstListing = (dl, de)"
  show ?thesis
    using assms unfolding sp dp
    by (cases "noSrc job"; cases "noDst job")
      (auto simp: runDirAtATime_job_def listedErr_def listed_def)
qed

text \<open>What the three functions do with the class they are given.\<close>

lemma classify_file_pair:
  "deleteMode t \<noteq> DeleteModeOnly \<Longrightarrow>
     classify t job (Matched (IsObject x) (IsObject y)) js =
       Some (t\<lparr>toBeChecked := toBeChecked t @ [\<lparr>src = x, dst = Some y\<rparr>]\<rparr>, js)"
  by (simp add: transfer_def)

lemma classify_dir_pair:
  "classify t job (Matched (IsDir x) (IsDir y)) js =
     Some (t, if 0 < srcDepth job \<and> 0 < dstDepth job
              then js @ [\<lparr>remote = DirName x, srcDepth = srcDepth job - 1,
                            dstDepth = dstDepth job - 1, noSrc = False, noDst = False\<rparr>]
              else js)"
  by (simp add: transfer_def)

lemma classify_src_file:
  "deleteMode t \<noteq> DeleteModeOnly \<Longrightarrow>
     classify t job (SrcOnly (IsObject x)) js =
       Some (if trackRenames t then t\<lparr>trackRenamesCh := trackRenamesCh t @ [x]\<rparr>
             else t\<lparr>toBeUploaded := toBeUploaded t @ [\<lparr>src = x, dst = None\<rparr>]\<rparr>, js)"
  by (simp add: srcOnly_def)

lemma classify_src_dir:
  "deleteMode t \<noteq> DeleteModeOnly \<Longrightarrow>
     classify t job (SrcOnly (IsDir x)) js =
       Some (t, if 0 < srcDepth job
                then js @ [\<lparr>remote = DirName x, srcDepth = srcDepth job - 1, dstDepth = 0,
                              noSrc = False, noDst = True\<rparr>]
                else js)"
  by (simp add: srcOnly_def)

lemma classify_dst_file:
  "classify t job (DstOnly (IsObject y)) js =
     (case deleteMode t of
        DeleteModeOff \<Rightarrow> Some (t, js)
      | DeleteModeAfter \<Rightarrow> Some (t\<lparr>dstFiles := (dstFiles t)(Remote y \<mapsto> y)\<rparr>, js)
      | DeleteModeDuring \<Rightarrow> Some (t\<lparr>deleteFilesCh := deleteFilesCh t @ [y]\<rparr>, js)
      | DeleteModeOnly \<Rightarrow> Some (t\<lparr>deleteFilesCh := deleteFilesCh t @ [y]\<rparr>, js)
      | DeleteModeBefore \<Rightarrow> None)"
  by (simp add: dstOnly_def split: DeleteMode.splits)

lemma classify_dst_dir:
  "classify t job (DstOnly (IsDir y)) js =
     Some (t, if deleteMode t \<noteq> DeleteModeOff \<and> 0 < dstDepth job
              then js @ [\<lparr>remote = DirName y, srcDepth = 0, dstDepth = dstDepth job - 1,
                            noSrc = True, noDst = False\<rparr>]
              else js)"
  by (simp add: dstOnly_def)

text \<open>
  C2 (amended). Take a directory job whose listings succeeded (the destination directory
  may be missing), each sorted by name with no name twice, in a run that is not
  aborting. Then \<open>_runDirAtATime\<close> does exactly what classifying the merged entries
  one after the other does. Every source entry and every destination entry is in
  exactly one class. A matched pair has the same name on both sides, a source-only
  entry has a name the destination listing lacks, a destination-only entry a name the
  source listing lacks. A file/file pair is sent to the checkers unless the delete mode
  is delete-only; a dir/dir pair gives a job when both remaining depths are positive. A
  source-only file is queued as rename candidate when renames are tracked and sent to
  upload otherwise, unless the delete mode is delete-only; a source-only directory gives
  a job with the destination side suppressed when the source depth is positive. A
  destination-only file is recorded for delete-after, sent to the deleter for
  delete-during and delete-only, and left alone when deletion is off; a
  destination-only directory gives a job with the source side suppressed when deletion
  is not off and the destination depth is positive.
\<close>

theorem runDirAtATime_merge:
  assumes "\<not> aborting s"
    and "listedErr (noSrc job) srcListing = None"
    and "listedErr (noDst job) dstListing = None
         \<or> listedErr (noDst job) dstListing = Some ErrorDirNotFound"
    and "sorted_names (listed (noSrc job) srcListing)"
    and "sorted_names (listed (noDst job) dstListing)"
    and "cs = merge_classes (listed (noSrc job) srcListing) (listed (noDst job) dstListing)"
  shows "runDirAtATime_job s job srcListing dstListing = run_classes s job cs []
       \<and> class_srcs cs = listed (noSrc job) srcListing
       \<and> class_dsts cs = listed (noDst job) dstListing
       \<and> (\<forall>c\<in>set cs.
            class_right (listed (noSrc job) srcListing) (listed (noDst job) dstListing) c)
       \<and> (deleteMode t \<noteq> DeleteModeOnly \<longrightarrow>
            classify t job (Matched (IsObject x) (IsObject y)) js =
              Some (t\<lparr>toBeChecked := toBeChecked t @ [\<lparr>src = x, dst = Some y\<rparr>]\<rparr>, js))
       \<and> classify t job (Matched (IsDir dx) (IsDir dy)) js =
            Some (t, if 0 < srcDepth job \<and> 0 < dstDepth job
                     then js @ [\<lparr>remote = DirName dx, srcDepth = srcDepth job - 1,
                                   dstDepth = dstDepth job - 1, noSrc = False, noDst = False\<rparr>]
                     else js)
       \<and> (deleteMode t \<noteq> DeleteModeOnly \<longrightarrow>
            classify t job (SrcOnly (IsObject x)) js =
              Some (if trackRenames t then t\<lparr>trackRenamesCh := trackRenamesCh t @ [x]\<rparr>
                    else t\<lparr>toBeUploaded := toBeUploaded t @ [\<lparr>src = x, dst = None\<rparr>]\<rparr>, js))
       \<and> (deleteMode t \<noteq> DeleteModeOnly \<longrightarrow>
            classify t job (SrcOnly (IsDir dx)) js =
              Some (t, if 0 < srcDepth job
                       then js @ [\<lparr>remote = DirName dx, srcDepth = srcDepth job - 1,
                                     dstDepth = 0, noSrc = False, noDst = True\<rparr>]
                       else js))
       \<and> classify t job (DstOnly (IsObject y)) js =
            (case deleteMode t of
               DeleteModeOff \<Rightarrow> Some (t, js)
             | DeleteModeAfter \<Rightarrow> Some (t\<lparr>dstFiles := (dstFiles t)(Remote y \<mapsto> y)\<rparr>, js)
             | DeleteModeDuring \<Rightarrow> Some (t\<lparr>deleteFilesCh := deleteFilesCh t @ [y]\<rparr>, js)
             | DeleteModeOnly \<Rightarrow> Some (t\<lparr>deleteFilesCh := deleteFilesCh t @ [y]\<rparr>, js)
             | DeleteModeBefore \<Rightarrow> None)
       \<and> classify t job (DstOnly (IsDir dy)) js =
            Some (t, if deleteMode t \<noteq> DeleteModeOff \<and> 0 < dstDepth job
                     then js @ [\<lparr>remote = DirName dy, srcDepth = 0, dstDepth = dstDepth job - 1,
                                   noSrc = True, noDst = False\<rparr>]
                     else js)"
proof -
  have run: "runDirAtATime_job s job srcListing dstListing = run_classes s job cs []"
    using runDirAtATime_job_merge [OF assms(2,3), of s]
      merge_loop_classes [OF assms(1), of 0 0 job "listed (noSrc job) srcListing"
        "listed (noDst job) dstListing" "[]"]
    by (simp add: assms(6))
  have srcs: "class_srcs cs = listed (noSrc job) srcListing"
    by (simp add: assms(6) class_srcs_merge)
  have dsts: "class_dsts cs = listed (noDst job) dstListing"
    by (simp add: assms(6) class_dsts_merge)
  have right: "\<forall>c\<in>set cs.
      class_right (listed (noSrc job) srcListing) (listed (noDst job) dstListing) c"
    using merge_classes_right [OF assms(4,5)] by (simp add: assms(6))
  note effects = classify_file_pair [of t job x y js] classify_dir_pair [of t job dx dy js]
    classify_src_file [of t job x js] classify_src_dir [of t job dx js]
    classify_dst_file [of t job y js] classify_dst_dir [of t job dy js]
  from run srcs dsts right effects show ?thesis
    by (intro conjI impI) assumption+
qed

theorem runDirAtATime_merge_witness:
  "\<not> aborting example_state
   \<and> listedErr (noSrc example_job) example_src_listing = None
   \<and> listedErr (noDst example_job) example_dst_listing = None
   \<and> sorted_names (listed (noSrc example_job) example_src_listing)
   \<and> sorted_names (listed (noDst example_job) example_dst_listing)
   \<and> merge_classes (listed (noSrc example_job) example_src_listing)
        (listed (noDst example_job) example_dst_listing) =
       [SrcOnly (IsObject (example_Object\<lparr>Remote := ''empty'', Size := 0\<rparr>)),
        Matched (IsObject (example_Object\<lparr>Size := 21\<rparr>)) (IsObject example_Object),
        Matched (IsDir example_Dir) (IsDir example_Dir),
        DstOnly (IsObject (example_Object\<lparr>Remote := ''zzz''\<rparr>))]
   \<and> runDirAtATime_job example_state example_job example_src_listing example_dst_listing =
       Some (example_state
              \<lparr>toBeUploaded := [\<lparr>src = example_Object\<lparr>Remote := ''empty'', Size := 0\<rparr>, dst = None\<rparr>],
                toBeChecked := [\<lparr>src = example_Object\<lparr>Size := 21\<rparr>, dst = Some example_Object\<rparr>],
                dstFiles := [''zzz'' \<mapsto> example_Object\<lparr>Remote := ''zzz''\<rparr>]\<rparr>,
             [\<lparr>remote = ''sub'', srcDepth = 2, dstDepth = 2, noSrc = False, noDst = False\<rparr>])"
proof -
  have ab: "\<not> aborting example_state"
    by (simp add: aborting_def example_state_def)
  have se: "listedErr (noSrc example_job) example_src_listing = None"
    by (simp add: listedErr_def example_src_listing_def)
  have de: "listedErr (noDst example_job) example_dst_listing = None"
    by (simp add: listedErr_def example_dst_listing_def)
  have ss: "sorted_names (listed (noSrc example_job) example_src_listing)"
    by (simp add: sorted_names_def listed_def example_job_def example_src_listing_def
        example_Object_def example_Dir_def)
  have sd: "sorted_names (listed (noDst example_job) example_dst_listing)"
    by (simp add: sorted_names_def listed_def example_job_def example_dst_listing_def
        example_Object_def example_Dir_def)
  have cs: "[SrcOnly (IsObject (example_Object\<lparr>Remote := ''empty'', Size := 0\<rparr>)),
        Matched (IsObject (example_Object\<lparr>Size := 21\<rparr>)) (IsObject example_Object),
        Matched (IsDir example_Dir) (IsDir example_Dir),
        DstOnly (IsObject (example_Object\<lparr>Remote := ''zzz''\<rparr>))] =
      merge_classes (listed (noSrc example_job) example_src_listing)
        (listed (noDst example_job) example_dst_listing)"
    by (simp add: listed_def example_job_def example_src_listing_def example_dst_listing_def
        example_Object_def example_Dir_def)
  have run: "run_classes example_state example_job
       [SrcOnly (IsObject (example_Object\<lparr>Remote := ''empty'', Size := 0\<rparr>)),
        Matched (IsObject (example_Object\<lparr>Size := 21\<rparr>)) (IsObject example_Object),
        Matched (IsDir example_Dir) (IsDir example_Dir),
        DstOnly (IsObject (example_Object\<lparr>Remote := ''zzz''\<rparr>))] []
     = Some (example_state
              \<lparr>toBeUploaded := [\<lparr>src = example_Object\<lparr>Remote := ''empty'', Size := 0\<rparr>, dst = None\<rparr>],
                toBeChecked := [\<lparr>src = example_Object\<lparr>Size := 21\<rparr>, dst = Some example_Object\<rparr>],
                dstFiles := [''zzz'' \<mapsto> example_Object\<lparr>Remote := ''zzz''\<rparr>]\<rparr>,
             [\<lparr>remote = ''sub'', srcDepth = 2, dstDepth = 2, noSrc = False, noDst = False\<rparr>])"
    by (simp add: srcOnly_def transfer_def dstOnly_def example_state_def example_job_def
        example_Dir_def example_Object_def)
  from runDirAtATime_merge [OF ab se disjI1 [OF de] ss sd cs] ab se de ss sd cs [symmetric] run
  show ?thesis by simp
qed

text \<open>
  Three runs against the claim as written. In delete-only mode a file present on both
  sides is not sent to the checkers. A source listing sorted by name with a name twice,
  against a destination listing with that name once: the second source entry goes
  straight to upload as a source-only file, though its name is in the destination
  listing. In a run that is aborting nothing is classified.
\<close>

theorem runDirAtATime_merge_counterexample:
  "runDirAtATime_job (example_state\<lparr>deleteMode := DeleteModeOnly\<rparr>) example_job
      ([IsObject (example_Object\<lparr>Size := 21\<rparr>)], None) ([IsObject example_Object], None)
     = Some (example_state\<lparr>deleteMode := DeleteModeOnly\<rparr>, [])
   \<and> toBeChecked (example_state\<lparr>deleteMode := DeleteModeOnly\<rparr>) = []
   \<and> sorted (map Remote_of [IsObject example_Object, IsObject (example_Object\<lparr>Size := 21\<rparr>)])
   \<and> Remote_of (IsObject (example_Object\<lparr>Size := 21\<rparr>))
        \<in> set (map Remote_of [IsObject example_Object])
   \<and> runDirAtATime_job example_state example_job
        ([IsObject example_Object, IsObject (example_Object\<lparr>Size := 21\<rparr>)], None)
        ([IsObject example_Object], None)
       = Some (example_state
                \<lparr>toBeChecked := [\<lparr>src = example_Object, dst = Some example_Object\<rparr>],
                  toBeUploaded := [\<lparr>src = example_Object\<lparr>Size := 21\<rparr>, dst = None\<rparr>]\<rparr>, [])
   \<and> runDirAtATime_job (example_state\<lparr>abort := True\<rparr>) example_job
        ([IsObject (example_Object\<lparr>Size := 21\<rparr>)], None) ([IsObject example_Object], None)
       = Some (example_state\<lparr>abort := True\<rparr>, [])"
  by (simp add: runDirAtATime_job_def merge_loop.simps aborting_def example_state_def
      example_job_def example_Object_def transfer_def srcOnly_def)

section \<open>Properties of the listings\<close>








lemma is_digit_not_space: "is_digit c \<Longrightarrow> c \<noteq> CHR '' ''"
  by (auto simp: is_digit_def)















































end
